theory Spec2Isabelle
  imports Complex_Main "HOL-Library.Word"
begin

section \<open>The ledger contract (marketplace/contracts/Ouro.sol)\<close>

text \<open>
  The contract is compiled with Solidity 0.8.20, whose arithmetic is checked: an operation
  whose result does not fit the type of the operation reverts with Panic(0x11).  Values of
  type uint256 are modelled as natural numbers and every arithmetic operation of the source
  is preceded by the test that its result fits; a failing test is the error \<open>Panic\<close>.
  A call that reverts returns \<open>Inl\<close> of the error and no state: the EVM rolls the
  whole transaction back.  Mappings are total functions, as in Solidity, where an absent key
  reads as the zero value.  The field \<open>id\<close> of the struct Product is \<open>id_Product\<close>
  here, \<open>id\<close> being the identity function of HOL.
\<close>

type_synonym address = nat
type_synonym bytes32 = nat
type_synonym uint256 = nat
type_synonym uint8 = "8 word"

definition fits256 :: "nat \<Rightarrow> bool" where
  "fits256 n = (n < 2 ^ 256)"

definition LISTING_FEE :: uint256 where
  "LISTING_FEE = 2 * 10 ^ 6"

definition PLATFORM_FEE_BPS :: uint256 where
  "PLATFORM_FEE_BPS = 800"

definition MAX_TAGS :: uint256 where
  "MAX_TAGS = 8"

definition MAX_NAME_LENGTH :: uint256 where
  "MAX_NAME_LENGTH = 100"

record Product =
  id_Product :: bytes32
  seller :: address
  name :: string
  tags :: "string list"
  priceUSDC :: uint256
  metadataURI :: string
  totalSales :: uint256
  totalRevenueUSDC :: uint256
  listedAt :: uint256
  deprecated :: bool

record Purchase =
  pu_productId :: bytes32
  pu_buyer :: address
  pu_amountPaid :: uint256
  pu_purchasedAt :: uint256
  pu_delivered :: bool

datatype event =
    ProductListed bytes32 address string "string list" uint256 string
  | ProductPurchased bytes32 address address uint256 uint256
  | ProductReviewed bytes32 address uint8 uint256
  | ProductDeprecated bytes32 address
  | GasSponsored address string uint256
  | TreasuryUpdated address address
  | OwnershipTransferred address address

datatype error =
    InvalidName
  | InvalidTags
  | InvalidPrice
  | InvalidMetadataURI
  | ProductNotFound
  | ProductIsDeprecated
  | CannotBuyOwnProduct
  | NotProductOwner
  | NotProductBuyer
  | USDCTransferFailed
  | InvalidRating
  | Panic
  | TokenReverted
  | InvalidAddresses
  | InvalidAddress
  | OwnableUnauthorizedAccount
  | OwnableInvalidOwner

text \<open>
  The stablecoin is an external contract behind the IERC20 interface; its code is not part
  of the repository.  It is a parameter of the model: a state of type \<open>'t\<close> and the three
  entry points the contract calls.  A call returns \<open>None\<close> when the token itself reverts,
  otherwise the boolean it returns and its new state.  The first address is the caller
  (the marketplace contract).  The token does not call back into the marketplace, and every
  call below is the outermost call of its transaction, so the \<open>nonReentrant\<close> guard of
  \<open>listProduct\<close> and \<open>purchase\<close> lets it pass.
\<close>

record 't erc20 =
  transferFrom :: "'t \<Rightarrow> address \<Rightarrow> address \<Rightarrow> address \<Rightarrow> uint256 \<Rightarrow> (bool \<times> 't) option"
  transfer :: "'t \<Rightarrow> address \<Rightarrow> address \<Rightarrow> uint256 \<Rightarrow> (bool \<times> 't) option"
  balanceOf :: "'t \<Rightarrow> address \<Rightarrow> uint256"

text \<open>The transaction context read by the contract.\<close>

record env =
  msg_sender :: address
  block_timestamp :: uint256
  tx_gasprice :: uint256
  gas_left :: uint256

record 't ouro =
  this :: address
  owner :: address
  treasury :: address
  totalProducts :: uint256
  totalVolume :: uint256
  products :: "bytes32 \<Rightarrow> Product"
  productRatings :: "bytes32 \<Rightarrow> uint256"
  productReviewCount :: "bytes32 \<Rightarrow> uint256"
  productPurchases :: "bytes32 \<Rightarrow> Purchase list"
  hasPurchased :: "address \<Rightarrow> bytes32 \<Rightarrow> bool"
  usdc :: 't
  events :: "event list"

definition zero_Product :: Product where
  "zero_Product = \<lparr> id_Product = 0, seller = 0, name = [], tags = [], priceUSDC = 0,
     metadataURI = [], totalSales = 0, totalRevenueUSDC = 0, listedAt = 0,
     deprecated = False \<rparr>"

text \<open>
  The constructor: \<open>self\<close> is the address the contract is deployed at, \<open>deployer\<close>
  is msg.sender, \<open>tok\<close> the state of the token at deployment.
\<close>

definition constructor ::
  "address \<Rightarrow> address \<Rightarrow> 't \<Rightarrow> address \<Rightarrow> address \<Rightarrow> error + 't ouro" where
  "constructor self deployer tok usdc_addr treasury_addr =
     (if usdc_addr = 0 \<or> treasury_addr = 0 then Inl InvalidAddresses
      else Inr \<lparr> this = self, owner = deployer, treasury = treasury_addr,
                 totalProducts = 0, totalVolume = 0,
                 products = (\<lambda>_. zero_Product),
                 productRatings = (\<lambda>_. 0),
                 productReviewCount = (\<lambda>_. 0),
                 productPurchases = (\<lambda>_. []),
                 hasPurchased = (\<lambda>_ _. False),
                 usdc = tok,
                 events = [OwnershipTransferred 0 deployer] \<rparr>)"

text \<open>
  \<open>listProduct\<close>.  The identifier is keccak256 of the packed sender, name, timestamp and
  product counter; the hash function is the parameter \<open>keccak\<close>.  The length of a string
  is its length in bytes, as \<open>bytes(name).length\<close> is.
\<close>

definition listProduct ::
  "'t erc20 \<Rightarrow> (address \<Rightarrow> string \<Rightarrow> uint256 \<Rightarrow> uint256 \<Rightarrow> bytes32) \<Rightarrow> env \<Rightarrow> 't ouro \<Rightarrow>
   string \<Rightarrow> string list \<Rightarrow> uint256 \<Rightarrow> string \<Rightarrow> error + (bytes32 \<times> 't ouro)" where
  "listProduct tk keccak e s nm tgs price uri =
     (if length nm = 0 \<or> length nm > MAX_NAME_LENGTH then Inl InvalidName
      else if length tgs = 0 \<or> length tgs > MAX_TAGS then Inl InvalidTags
      else if price < 100000 \<or> price > 10000 * 10 ^ 6 then Inl InvalidPrice
      else if length uri = 0 then Inl InvalidMetadataURI
      else case transferFrom tk (usdc s) (this s) (msg_sender e) (treasury s) LISTING_FEE of
        None \<Rightarrow> Inl TokenReverted
      | Some (success, tok1) \<Rightarrow>
          if \<not> success then Inl USDCTransferFailed
          else
            let productId = keccak (msg_sender e) nm (block_timestamp e) (totalProducts s) in
            if \<not> fits256 (totalProducts s + 1) then Inl Panic
            else if \<not> fits256 (tx_gasprice e * gas_left e) then Inl Panic
            else Inr (productId,
              s\<lparr> products := (products s)(productId :=
                     \<lparr> id_Product = productId, seller = msg_sender e, name = nm, tags = tgs,
                       priceUSDC = price, metadataURI = uri, totalSales = 0,
                       totalRevenueUSDC = 0, listedAt = block_timestamp e,
                       deprecated = False \<rparr>),
                 totalProducts := totalProducts s + 1,
                 usdc := tok1,
                 events := events s @
                   [ProductListed productId (msg_sender e) nm tgs price uri,
                    GasSponsored (msg_sender e) ''listProduct''
                      (tx_gasprice e * gas_left e)] \<rparr>))"

text \<open>
  \<open>purchase\<close>.  The product is read once (a storage reference); the three token calls
  are made in the order of the source, each on the token state left by the one before.
\<close>

definition purchase :: "'t erc20 \<Rightarrow> env \<Rightarrow> 't ouro \<Rightarrow> bytes32 \<Rightarrow> error + 't ouro" where
  "purchase tk e s productId =
     (let product = products s productId in
      if listedAt product = 0 then Inl ProductNotFound
      else if deprecated product then Inl ProductIsDeprecated
      else if msg_sender e = seller product then Inl CannotBuyOwnProduct
      else if \<not> fits256 (priceUSDC product * PLATFORM_FEE_BPS) then Inl Panic
      else
        let platformFee = (priceUSDC product * PLATFORM_FEE_BPS) div 10000 in
        if priceUSDC product < platformFee then Inl Panic
        else
          let sellerAmount = priceUSDC product - platformFee in
          case transferFrom tk (usdc s) (this s) (msg_sender e) (this s) (priceUSDC product) of
            None \<Rightarrow> Inl TokenReverted
          | Some (buyerTransfer, tok1) \<Rightarrow>
              if \<not> buyerTransfer then Inl USDCTransferFailed
              else case transfer tk tok1 (this s) (treasury s) platformFee of
                None \<Rightarrow> Inl TokenReverted
              | Some (platformTransfer, tok2) \<Rightarrow>
                  (case transfer tk tok2 (this s) (seller product) sellerAmount of
                    None \<Rightarrow> Inl TokenReverted
                  | Some (sellerTransfer, tok3) \<Rightarrow>
                      if \<not> platformTransfer \<or> \<not> sellerTransfer then Inl USDCTransferFailed
                      else if \<not> fits256 (totalSales product + 1) then Inl Panic
                      else if \<not> fits256 (totalRevenueUSDC product + sellerAmount)
                        then Inl Panic
                      else if \<not> fits256 (totalVolume s + priceUSDC product) then Inl Panic
                      else if \<not> fits256 (tx_gasprice e * gas_left e) then Inl Panic
                      else Inr
                        (s\<lparr> products := (products s)(productId :=
                               product\<lparr> totalSales := totalSales product + 1,
                                        totalRevenueUSDC :=
                                          totalRevenueUSDC product + sellerAmount \<rparr>),
                           totalVolume := totalVolume s + priceUSDC product,
                           productPurchases := (productPurchases s)(productId :=
                               productPurchases s productId @
                                 [\<lparr> pu_productId = productId, pu_buyer = msg_sender e,
                                    pu_amountPaid = priceUSDC product,
                                    pu_purchasedAt = block_timestamp e,
                                    pu_delivered = False \<rparr>]),
                           hasPurchased := (hasPurchased s)(msg_sender e :=
                               (hasPurchased s (msg_sender e))(productId := True)),
                           usdc := tok3,
                           events := events s @
                             [ProductPurchased productId (msg_sender e) (seller product)
                                (priceUSDC product) platformFee,
                              GasSponsored (msg_sender e) ''purchase''
                                (tx_gasprice e * gas_left e)] \<rparr>)))"

text \<open>
  \<open>leaveReview\<close>.  The rating is a uint8.  In \<open>rating * 100\<close> the literal takes the type
  of the other operand, so the product is computed as a uint8 and checked against that type:
  it reverts with Panic(0x11) when it exceeds 255.  Its value is then widened to uint256 for
  the addition.  The review count is incremented in storage before the division, which
  therefore never divides by zero.
\<close>

definition leaveReview :: "env \<Rightarrow> 't ouro \<Rightarrow> bytes32 \<Rightarrow> uint8 \<Rightarrow> error + 't ouro" where
  "leaveReview e s productId rating =
     (if rating < 1 \<or> rating > 5 then Inl InvalidRating
      else if \<not> hasPurchased s (msg_sender e) productId then Inl NotProductBuyer
      else
        let product = products s productId in
        if listedAt product = 0 then Inl ProductNotFound
        else if \<not> fits256 (productRatings s productId * productReviewCount s productId)
          then Inl Panic
        else
          let currentTotal = productRatings s productId * productReviewCount s productId in
          if \<not> fits256 (productReviewCount s productId + 1) then Inl Panic
          else
            let reviewCount = productReviewCount s productId + 1 in
            if \<not> unat rating * 100 < 2 ^ 8 then Inl Panic
            else if \<not> fits256 (currentTotal + unat rating * 100) then Inl Panic
            else
              let newAvgRating = (currentTotal + unat rating * 100) div reviewCount in
              if \<not> fits256 (tx_gasprice e * gas_left e) then Inl Panic
              else Inr
                (s\<lparr> productReviewCount := (productReviewCount s)(productId := reviewCount),
                   productRatings := (productRatings s)(productId := newAvgRating),
                   events := events s @
                     [ProductReviewed productId (msg_sender e) rating newAvgRating,
                      GasSponsored (msg_sender e) ''leaveReview''
                        (tx_gasprice e * gas_left e)] \<rparr>))"

definition deprecateProduct :: "env \<Rightarrow> 't ouro \<Rightarrow> bytes32 \<Rightarrow> error + 't ouro" where
  "deprecateProduct e s productId =
     (let product = products s productId in
      if msg_sender e \<noteq> seller product then Inl NotProductOwner
      else Inr
        (s\<lparr> products := (products s)(productId := product\<lparr> deprecated := True \<rparr>),
           events := events s @ [ProductDeprecated productId (msg_sender e)] \<rparr>))"

definition updateTreasury :: "env \<Rightarrow> 't ouro \<Rightarrow> address \<Rightarrow> error + 't ouro" where
  "updateTreasury e s newTreasury =
     (if msg_sender e \<noteq> owner s then Inl OwnableUnauthorizedAccount
      else if newTreasury = 0 then Inl InvalidAddress
      else Inr
        (s\<lparr> treasury := newTreasury,
           events := events s @ [TreasuryUpdated (treasury s) newTreasury] \<rparr>))"

text \<open>The result of the transfer in \<open>emergencyWithdraw\<close> is not inspected by the source.\<close>

definition emergencyWithdraw :: "'t erc20 \<Rightarrow> env \<Rightarrow> 't ouro \<Rightarrow> error + 't ouro" where
  "emergencyWithdraw tk e s =
     (if msg_sender e \<noteq> owner s then Inl OwnableUnauthorizedAccount
      else
        let balance = balanceOf tk (usdc s) (this s) in
        if balance > 0 then
          (case transfer tk (usdc s) (this s) (treasury s) balance of
             None \<Rightarrow> Inl TokenReverted
           | Some (_, tok1) \<Rightarrow> Inr (s\<lparr> usdc := tok1 \<rparr>))
        else Inr s)"

text \<open>
  The two state-changing entry points the contract inherits from OpenZeppelin's Ownable
  (version 5, whose constructor takes the initial owner).  They touch the owner only.
\<close>

definition transferOwnership :: "env \<Rightarrow> 't ouro \<Rightarrow> address \<Rightarrow> error + 't ouro" where
  "transferOwnership e s newOwner =
     (if msg_sender e \<noteq> owner s then Inl OwnableUnauthorizedAccount
      else if newOwner = 0 then Inl OwnableInvalidOwner
      else Inr
        (s\<lparr> owner := newOwner,
           events := events s @ [OwnershipTransferred (owner s) newOwner] \<rparr>))"

definition renounceOwnership :: "env \<Rightarrow> 't ouro \<Rightarrow> error + 't ouro" where
  "renounceOwnership e s =
     (if msg_sender e \<noteq> owner s then Inl OwnableUnauthorizedAccount
      else Inr
        (s\<lparr> owner := 0,
           events := events s @ [OwnershipTransferred (owner s) 0] \<rparr>))"

subsection \<open>Transactions and reachable states\<close>

text \<open>
  A transaction is one external call in its context.  When the call reverts the ledger
  keeps the state it had; otherwise it takes the state the call returns.  The ledger
  serialises transactions, so a history is a list of them, applied from the left.
\<close>

datatype call =
    ListProduct string "string list" uint256 string
  | PurchaseCall bytes32
  | LeaveReview bytes32 uint8
  | DeprecateProduct bytes32
  | UpdateTreasury address
  | EmergencyWithdraw
  | TransferOwnership address
  | RenounceOwnership

definition commit :: "'s \<Rightarrow> error + 's \<Rightarrow> 's" where
  "commit s r = (case r of Inl _ \<Rightarrow> s | Inr s' \<Rightarrow> s')"

fun dispatch ::
  "'t erc20 \<Rightarrow> (address \<Rightarrow> string \<Rightarrow> uint256 \<Rightarrow> uint256 \<Rightarrow> bytes32) \<Rightarrow> env \<Rightarrow> 't ouro \<Rightarrow>
   call \<Rightarrow> error + 't ouro" where
  "dispatch tk keccak e s (ListProduct nm tgs price uri) =
     map_sum (\<lambda>err. err) snd (listProduct tk keccak e s nm tgs price uri)"
| "dispatch tk keccak e s (PurchaseCall productId) = purchase tk e s productId"
| "dispatch tk keccak e s (LeaveReview productId rating) = leaveReview e s productId rating"
| "dispatch tk keccak e s (DeprecateProduct productId) = deprecateProduct e s productId"
| "dispatch tk keccak e s (UpdateTreasury a) = updateTreasury e s a"
| "dispatch tk keccak e s EmergencyWithdraw = emergencyWithdraw tk e s"
| "dispatch tk keccak e s (TransferOwnership a) = transferOwnership e s a"
| "dispatch tk keccak e s RenounceOwnership = renounceOwnership e s"

definition transact ::
  "'t erc20 \<Rightarrow> (address \<Rightarrow> string \<Rightarrow> uint256 \<Rightarrow> uint256 \<Rightarrow> bytes32) \<Rightarrow> 't ouro \<Rightarrow>
   env \<times> call \<Rightarrow> 't ouro" where
  "transact tk keccak s tx = commit s (dispatch tk keccak (fst tx) s (snd tx))"

definition run ::
  "'t erc20 \<Rightarrow> (address \<Rightarrow> string \<Rightarrow> uint256 \<Rightarrow> uint256 \<Rightarrow> bytes32) \<Rightarrow> 't ouro \<Rightarrow>
   (env \<times> call) list \<Rightarrow> 't ouro" where
  "run tk keccak s txs = foldl (transact tk keccak) s txs"

text \<open>
  The highest rating among the ProductReviewed events of a product in an event log, and 0
  when the log has none.
\<close>

fun max_rating :: "event list \<Rightarrow> bytes32 \<Rightarrow> nat" where
  "max_rating [] productId = 0"
| "max_rating (ProductReviewed p buyer rating avg # evs) productId =
     (if p = productId then max (unat rating) (max_rating evs productId)
      else max_rating evs productId)"
| "max_rating (ev # evs) productId = max_rating evs productId"

subsection \<open>A token and a hash to evaluate the model on\<close>

text \<open>
  To run the model on concrete inputs the parameters need values.  \<open>plain_token strict\<close>
  keeps balances and allowances; a transfer that the balance or the allowance does not
  cover reverts when \<open>strict\<close> and returns false otherwise.  \<open>counter_hash\<close> stands for
  keccak256 on the inputs used below.  No theorem about the contract depends on them.
\<close>

record token_state =
  balances :: "address \<Rightarrow> nat"
  allowances :: "address \<Rightarrow> address \<Rightarrow> nat"

definition plain_transfer ::
  "bool \<Rightarrow> token_state \<Rightarrow> address \<Rightarrow> address \<Rightarrow> uint256 \<Rightarrow> (bool \<times> token_state) option" where
  "plain_transfer strict t caller to amount =
     (if balances t caller < amount then (if strict then None else Some (False, t))
      else Some (True,
        t\<lparr> balances := ((balances t)(caller := balances t caller - amount))
               (to := ((balances t)(caller := balances t caller - amount)) to + amount) \<rparr>))"

definition plain_transferFrom ::
  "bool \<Rightarrow> token_state \<Rightarrow> address \<Rightarrow> address \<Rightarrow> address \<Rightarrow> uint256 \<Rightarrow>
   (bool \<times> token_state) option" where
  "plain_transferFrom strict t caller from to amount =
     (if balances t from < amount \<or> allowances t from caller < amount
      then (if strict then None else Some (False, t))
      else Some (True,
        t\<lparr> balances := ((balances t)(from := balances t from - amount))
               (to := ((balances t)(from := balances t from - amount)) to + amount),
           allowances := (allowances t)(from :=
               (allowances t from)(caller := allowances t from caller - amount)) \<rparr>))"

definition plain_token :: "bool \<Rightarrow> token_state erc20" where
  "plain_token strict =
     \<lparr> transferFrom = plain_transferFrom strict,
       transfer = plain_transfer strict,
       balanceOf = balances \<rparr>"

definition counter_hash :: "address \<Rightarrow> string \<Rightarrow> uint256 \<Rightarrow> uint256 \<Rightarrow> bytes32" where
  "counter_hash sender nm ts n = 1000 + n"

section \<open>The mirror store and its two writers\<close>

text \<open>
  The mirror store is the Postgres database of drizzle/schema.ts.  A table is the list of
  its rows.  Of each table the model keeps the columns that the chain event follower
  (the ProductPurchased handler of indexEvents) or the receipt intake route
  (api/products/[id]/purchase/route.ts) reads or writes.  Addresses and hashes are strings
  and compared as strings.  A uuid column holds the canonical text of its value.  Decimal
  columns hold rationals.

  Both writers compute amounts with JavaScript numbers (IEEE doubles) and hand them to the
  database as strings.  Floating point is not modelled: the operations on numbers that the
  two writers use are parameters, gathered in \<open>jsnum\<close>, over an abstract type \<open>'f\<close> of
  numbers.  \<open>store_decimal\<close> is what a decimal(10,2) column keeps of a value written to it.
\<close>

type_synonym decimal = rat

record 'f jsnum =
  Number_bigint :: "nat \<Rightarrow> 'f"
  Number_decimal :: "decimal \<Rightarrow> 'f"
  div_1e6 :: "'f \<Rightarrow> 'f"
  times_008 :: "'f \<Rightarrow> 'f"
  minus_num :: "'f \<Rightarrow> 'f \<Rightarrow> 'f"
  toString_num :: "'f \<Rightarrow> decimal"
  toFixed_2 :: "'f \<Rightarrow> decimal"
  store_decimal :: "decimal \<Rightarrow> decimal"

record product_row =
  p_id :: string
  p_productId :: string
  p_sellerAddress :: string
  p_name :: string
  p_tags :: "string list"
  p_priceUSDC :: decimal
  p_totalSales :: int
  p_totalRevenueUSDC :: decimal
  p_lastSaleAt :: "nat option"
  p_updatedAt :: nat

record transaction_row =
  t_id :: string
  t_chainId :: int
  t_txHash :: string
  t_blockNumber :: int
  t_type :: string
  t_productId :: "string option"
  t_fromAddress :: string
  t_toAddress :: "string option"
  t_amountUSDC :: "decimal option"
  t_platformFeeUSDC :: "decimal option"
  t_status :: string

record tag_row =
  g_tag :: string
  g_totalPurchases :: int
  g_lastUsedAt :: nat

record seller_row =
  s_address :: string
  s_totalEarningsUSDC :: decimal
  s_totalListings :: int

record mirror =
  m_products :: "product_row list"
  m_transactions :: "transaction_row list"
  m_tagAnalytics :: "tag_row list"
  m_sellers :: "seller_row list"

text \<open>
  What a handler takes from its surroundings: the clock (\<open>new Date()\<close>), the identifier
  the database draws for a new row (\<open>defaultRandom()\<close>, taken to be unused), the
  configured chain, and the database's reading of a text as a uuid.  \<open>uuid_in\<close> gives
  the canonical text of the uuid that a text denotes, and \<open>None\<close> for a text that denotes
  none: comparing a uuid column with such a text makes the query raise.
\<close>

record server =
  now :: nat
  new_uuid :: string
  CHAIN_ID :: int
  uuid_in :: "string \<Rightarrow> string option"

text \<open>
  The column tx_hash of transactions is declared unique.  A plain insert of a row whose
  hash is already present raises; with \<open>onConflictDoNothing\<close> it is skipped.
\<close>

definition tx_exists :: "mirror \<Rightarrow> string \<Rightarrow> bool" where
  "tx_exists db h = (filter (\<lambda>t. t_txHash t = h) (m_transactions db) \<noteq> [])"

definition insert_transaction :: "mirror \<Rightarrow> transaction_row \<Rightarrow> mirror option" where
  "insert_transaction db row =
     (if tx_exists db (t_txHash row) then None
      else Some (db\<lparr> m_transactions := m_transactions db @ [row] \<rparr>))"

definition insert_transaction_onConflictDoNothing ::
  "mirror \<Rightarrow> transaction_row \<Rightarrow> mirror" where
  "insert_transaction_onConflictDoNothing db row =
     (case insert_transaction db row of None \<Rightarrow> db | Some db' \<Rightarrow> db')"

text \<open>JavaScript's \<open>!x\<close> on a value that is a string when present.\<close>

fun falsy :: "string option \<Rightarrow> bool" where
  "falsy None = True"
| "falsy (Some x) = (x = [])"

subsection \<open>The chain event follower: ProductPurchased\<close>

record purchased_log =
  l_productId :: "string option"
  l_buyer :: "string option"
  l_seller :: "string option"
  l_priceUSDC :: nat
  l_platformFee :: nat
  l_transactionHash :: string
  l_blockNumber :: nat

definition upsert_seller :: "'f jsnum \<Rightarrow> mirror \<Rightarrow> string \<Rightarrow> decimal \<Rightarrow> mirror" where
  "upsert_seller js db addr amount =
     (if filter (\<lambda>r. s_address r = addr) (m_sellers db) = []
      then db\<lparr> m_sellers := m_sellers db @
                 [\<lparr> s_address = addr, s_totalEarningsUSDC = store_decimal js amount,
                    s_totalListings = 1 \<rparr>] \<rparr>
      else db\<lparr> m_sellers := map (\<lambda>r. if s_address r = addr
                 then r\<lparr> s_totalEarningsUSDC :=
                        store_decimal js (s_totalEarningsUSDC r + amount) \<rparr>
                 else r) (m_sellers db) \<rparr>)"

text \<open>
  The body of the loop over the logs.  The order is the source's: the product counters are
  updated first, then the product is read back, then the transaction row is inserted with
  \<open>onConflictDoNothing\<close>, then the seller row is upserted.
\<close>

definition onLog_ProductPurchased ::
  "'f jsnum \<Rightarrow> server \<Rightarrow> mirror \<Rightarrow> purchased_log \<Rightarrow> mirror" where
  "onLog_ProductPurchased js srv db lg =
     (if falsy (l_productId lg) \<or> falsy (l_buyer lg) \<or> falsy (l_seller lg) then db
      else case (l_productId lg, l_buyer lg, l_seller lg) of
        (Some productId, Some buyer, Some sellerAddr) \<Rightarrow>
          let amount = toString_num js (div_1e6 js (Number_bigint js (l_priceUSDC lg)));
              db1 = db\<lparr> m_products := map (\<lambda>p. if p_productId p = productId
                       then p\<lparr> p_totalSales := p_totalSales p + 1,
                              p_totalRevenueUSDC :=
                                store_decimal js (p_totalRevenueUSDC p + amount),
                              p_lastSaleAt := Some (now srv) \<rparr>
                       else p) (m_products db) \<rparr>;
              p = find (\<lambda>p. p_productId p = productId) (m_products db1);
              db2 = insert_transaction_onConflictDoNothing db1
                      \<lparr> t_id = new_uuid srv, t_chainId = CHAIN_ID srv,
                        t_txHash = l_transactionHash lg,
                        t_blockNumber = int (l_blockNumber lg),
                        t_type = ''purchase'',
                        t_productId = map_option p_id p,
                        t_fromAddress = buyer,
                        t_toAddress = Some sellerAddr,
                        t_amountUSDC = Some (store_decimal js amount),
                        t_platformFeeUSDC = Some (store_decimal js
                          (toString_num js (div_1e6 js (Number_bigint js (l_platformFee lg))))),
                        t_status = ''confirmed'' \<rparr>
          in upsert_seller js db2 sellerAddr amount
      | _ \<Rightarrow> db)"

definition onLogs_ProductPurchased ::
  "'f jsnum \<Rightarrow> server \<Rightarrow> mirror \<Rightarrow> purchased_log list \<Rightarrow> mirror" where
  "onLogs_ProductPurchased js srv db logs = foldl (onLog_ProductPurchased js srv) db logs"

subsection \<open>The receipt intake route: POST /api/products/[id]/purchase\<close>

text \<open>
  The body of the request is \<open>None\<close> when it is not JSON (\<open>req.json()\<close> throws, and the
  catch clause answers 500).  A field is \<open>None\<close> when it is absent or null; the hash and
  the buyer address are strings, the block number is a JSON number.
\<close>

record receipt_body =
  b_txHash :: "string option"
  b_blockNumber :: "rat option"
  b_buyerAddress :: "string option"

datatype response = Ok_true | Status_400 | Status_404 | Status_500

text \<open>
  The request is not trusted, so its values meet the column types of the schema only if
  the database says so.  An integer column holds 32 bits.  A varchar(n) column takes a text
  of at most n characters, and a longer one only if the excess is spaces, which it cuts
  off.  A decimal(10,2) column takes a value whose magnitude, once rounded, is below 10^8.
  A statement that offers a column a value it does not take raises, and writes nothing.
\<close>

definition fits_int4 :: "int \<Rightarrow> bool" where
  "fits_int4 n = (- 2147483648 \<le> n \<and> n \<le> 2147483647)"

definition varchar :: "nat \<Rightarrow> string \<Rightarrow> string option" where
  "varchar n s =
     (if length s \<le> n then Some s
      else if list_all (\<lambda>c. c = CHR '' '') (drop n s) then Some (take n s)
      else None)"

definition fits_decimal_10_2 :: "decimal \<Rightarrow> bool" where
  "fits_decimal_10_2 x = (\<bar>x\<bar> < 100000000)"

text \<open>
  The plain insert of the route: the row as the columns of transactions keep it, or
  \<open>None\<close> when the statement raises, for a value that a column does not take or for a
  hash that is already present.
\<close>

definition varchar_null :: "nat \<Rightarrow> string option \<Rightarrow> string option option" where
  "varchar_null n x = (case x of None \<Rightarrow> Some None | Some s \<Rightarrow> map_option Some (varchar n s))"

definition transaction_columns :: "transaction_row \<Rightarrow> transaction_row option" where
  "transaction_columns row =
     (case (varchar 66 (t_txHash row), varchar 20 (t_type row),
            varchar 42 (t_fromAddress row), varchar_null 42 (t_toAddress row),
            varchar 20 (t_status row)) of
        (Some h, Some ty, Some from, Some to, Some st) \<Rightarrow>
          if fits_int4 (t_chainId row) \<and> fits_int4 (t_blockNumber row) \<and>
             (case t_amountUSDC row of None \<Rightarrow> True | Some x \<Rightarrow> fits_decimal_10_2 x) \<and>
             (case t_platformFeeUSDC row of None \<Rightarrow> True | Some x \<Rightarrow> fits_decimal_10_2 x)
          then Some (row\<lparr> t_txHash := h, t_type := ty, t_fromAddress := from,
                         t_toAddress := to, t_status := st \<rparr>)
          else None
      | _ \<Rightarrow> None)"

definition insert_transaction_checked :: "mirror \<Rightarrow> transaction_row \<Rightarrow> mirror option" where
  "insert_transaction_checked db row =
     (case transaction_columns row of
        None \<Rightarrow> None
      | Some stored \<Rightarrow> insert_transaction db stored)"

text \<open>
  The update of the product counters is one statement: it raises, and changes no row, when
  a counter of a row it addresses would leave its column.
\<close>

definition bump_product ::
  "'f jsnum \<Rightarrow> server \<Rightarrow> mirror \<Rightarrow> string \<Rightarrow> decimal \<Rightarrow> mirror option" where
  "bump_product js srv db ident amount =
     (if list_all (\<lambda>p. if p_id p = ident
            then fits_int4 (p_totalSales p + 1) \<and>
                 fits_decimal_10_2 (store_decimal js (p_totalRevenueUSDC p + amount))
            else True)
          (m_products db)
      then Some (db\<lparr> m_products := map (\<lambda>p. if p_id p = ident
                   then p\<lparr> p_totalSales := p_totalSales p + 1,
                          p_totalRevenueUSDC :=
                            store_decimal js (p_totalRevenueUSDC p + amount),
                          p_lastSaleAt := Some (now srv),
                          p_updatedAt := now srv \<rparr>
                   else p) (m_products db) \<rparr>)
      else None)"

text \<open>
  The upsert of one tag counter, and the loop over the tags of the product.  The loop stops
  at the first statement that raises; what the statements before it wrote stays written.
\<close>

definition bump_tag :: "server \<Rightarrow> mirror \<Rightarrow> string \<Rightarrow> mirror option" where
  "bump_tag srv db tg =
     (case varchar 50 tg of
        None \<Rightarrow> None
      | Some stored \<Rightarrow>
          if filter (\<lambda>r. g_tag r = stored) (m_tagAnalytics db) = []
          then Some (db\<lparr> m_tagAnalytics := m_tagAnalytics db @
                     [\<lparr> g_tag = stored, g_totalPurchases = 1, g_lastUsedAt = now srv \<rparr>] \<rparr>)
          else if list_all (\<lambda>r. if g_tag r = stored
                     then fits_int4 (g_totalPurchases r + 1) else True)
                   (m_tagAnalytics db)
          then Some (db\<lparr> m_tagAnalytics := map (\<lambda>r. if g_tag r = stored
                     then r\<lparr> g_totalPurchases := g_totalPurchases r + 1,
                            g_lastUsedAt := now srv \<rparr>
                     else r) (m_tagAnalytics db) \<rparr>)
          else None)"

fun bump_tags :: "server \<Rightarrow> mirror \<Rightarrow> string list \<Rightarrow> bool \<times> mirror" where
  "bump_tags srv db [] = (True, db)"
| "bump_tags srv db (tg # tgs) =
     (case bump_tag srv db tg of
        None \<Rightarrow> (False, db)
      | Some db' \<Rightarrow> bump_tags srv db' tgs)"

text \<open>
  The route.  Every statement sits in the try block, so a statement that raises is answered
  with 500; the route opens no database transaction, so what was written before stays.
  The order is the source's: the field check, the look for a row with the hash, the product
  lookup (which compares the uuid column products.id with the path identifier, and raises
  when that is not the text of a uuid), the insert, the update of the product, the tags.
\<close>

definition POST ::
  "'f jsnum \<Rightarrow> server \<Rightarrow> mirror \<Rightarrow> string \<Rightarrow> receipt_body option \<Rightarrow> response \<times> mirror" where
  "POST js srv db ident body =
     (case body of
        None \<Rightarrow> (Status_500, db)
      | Some b \<Rightarrow>
         (if falsy (b_txHash b) \<or> b_blockNumber b = None \<or> falsy (b_buyerAddress b)
          then (Status_400, db)
          else
           (case (b_txHash b, b_blockNumber b, b_buyerAddress b) of
              (Some txHash, Some blockNumber, Some buyerAddress) \<Rightarrow>
               (if tx_exists db txHash then (Ok_true, db)
                else
                 (case uuid_in srv ident of
                    None \<Rightarrow> (Status_500, db)
                  | Some u \<Rightarrow>
                     (case find (\<lambda>p. p_id p = u \<or> p_productId p = ident) (m_products db) of
                        None \<Rightarrow> (Status_404, db)
                      | Some product \<Rightarrow>
                         (let price = Number_decimal js (p_priceUSDC product);
                              platformFee = times_008 js price;
                              sellerAmount = minus_num js price platformFee
                          in if of_int \<lfloor>blockNumber\<rfloor> \<noteq> blockNumber then (Status_500, db)
                             else
                              (case insert_transaction_checked db
                                 \<lparr> t_id = new_uuid srv, t_chainId = CHAIN_ID srv,
                                   t_txHash = txHash, t_blockNumber = \<lfloor>blockNumber\<rfloor>,
                                   t_type = ''purchase'',
                                   t_productId = Some (p_id product),
                                   t_fromAddress = buyerAddress,
                                   t_toAddress = Some (p_sellerAddress product),
                                   t_amountUSDC = Some (store_decimal js (toFixed_2 js price)),
                                   t_platformFeeUSDC =
                                     Some (store_decimal js (toFixed_2 js platformFee)),
                                   t_status = ''confirmed'' \<rparr> of
                                 None \<Rightarrow> (Status_500, db)
                               | Some db1 \<Rightarrow>
                                  (case bump_product js srv db1 (p_id product)
                                          (toFixed_2 js sellerAmount) of
                                     None \<Rightarrow> (Status_500, db1)
                                   | Some db2 \<Rightarrow>
                                      (if fst (bump_tags srv db2 (p_tags product))
                                       then (Ok_true, snd (bump_tags srv db2 (p_tags product)))
                                       else (Status_500,
                                             snd (bump_tags srv db2 (p_tags product))))))))))
            | _ \<Rightarrow> (Status_400, db))))"

text \<open>
  \<open>intake_accepted\<close> says, of a receipt with an integral block number, the product row
  it resolves to and a store, that the database takes every write of the route: the values
  of the transaction row fit their columns, no counter of the product row leaves its column,
  and no tag of the product is too long or has a counter that the loop would push out of
  its column.
\<close>

definition intake_accepted ::
  "'f jsnum \<Rightarrow> server \<Rightarrow> mirror \<Rightarrow> product_row \<Rightarrow> string \<Rightarrow> int \<Rightarrow> string \<Rightarrow> bool" where
  "intake_accepted js srv db product txHash blockNumber buyerAddress =
     (let price = Number_decimal js (p_priceUSDC product);
          platformFee = times_008 js price;
          sellerAmount = minus_num js price platformFee
      in length txHash \<le> 66 \<and> length buyerAddress \<le> 42 \<and>
         fits_int4 blockNumber \<and> fits_int4 (CHAIN_ID srv) \<and>
         length (p_sellerAddress product) \<le> 42 \<and>
         fits_decimal_10_2 (store_decimal js (toFixed_2 js price)) \<and>
         fits_decimal_10_2 (store_decimal js (toFixed_2 js platformFee)) \<and>
         list_all (\<lambda>p. if p_id p = p_id product
             then fits_int4 (p_totalSales p + 1) \<and>
                  fits_decimal_10_2
                    (store_decimal js (p_totalRevenueUSDC p + toFixed_2 js sellerAmount))
             else True)
           (m_products db) \<and>
         list_all (\<lambda>tg. length tg \<le> 50) (p_tags product) \<and>
         fits_int4 (int (length (p_tags product))) \<and>
         list_all (\<lambda>g. fits_int4 (g_totalPurchases g) \<and>
             fits_int4 (g_totalPurchases g + int (length (p_tags product))))
           (m_tagAnalytics db))"

text \<open>
  The follower is modelled on the logs and stores whose writes the database takes: the
  values of a decoded chain event and the counters they are added to are taken to fit their
  columns.  \<open>follower_accepted\<close> says that they do, for one log on one store.
\<close>

definition follower_accepted :: "'f jsnum \<Rightarrow> server \<Rightarrow> mirror \<Rightarrow> purchased_log \<Rightarrow> bool" where
  "follower_accepted js srv db lg =
     (case (l_productId lg, l_buyer lg, l_seller lg) of
        (Some productId, Some buyer, Some sellerAddr) \<Rightarrow>
          let amount = toString_num js (div_1e6 js (Number_bigint js (l_priceUSDC lg)));
              fee = toString_num js (div_1e6 js (Number_bigint js (l_platformFee lg)))
          in list_all (\<lambda>p. if p_productId p = productId
                 then fits_int4 (p_totalSales p + 1) \<and>
                      fits_decimal_10_2 (store_decimal js (p_totalRevenueUSDC p + amount))
                 else True)
               (m_products db) \<and>
             fits_int4 (CHAIN_ID srv) \<and> fits_int4 (int (l_blockNumber lg)) \<and>
             length (l_transactionHash lg) \<le> 66 \<and>
             length buyer \<le> 42 \<and> length sellerAddr \<le> 42 \<and>
             fits_decimal_10_2 (store_decimal js amount) \<and>
             fits_decimal_10_2 (store_decimal js fee) \<and>
             list_all (\<lambda>r. if s_address r = sellerAddr
                 then fits_decimal_10_2 (store_decimal js (s_totalEarningsUSDC r + amount))
                 else True)
               (m_sellers db)
      | _ \<Rightarrow> True)"

section \<open>Sample inputs\<close>

text \<open>
  A small market on which the theorems below are instantiated: the contract sits at address
  50, its treasury at 70; account 1 lists a product priced at 1000000 minor units, account 2
  buys it.  Both hold 10000000 units and have approved the contract for as much; account 3
  holds nothing.
\<close>

definition w_funds :: token_state where
  "w_funds =
     \<lparr> balances = (\<lambda>a. if a = 1 \<or> a = 2 then 10000000 else 0),
       allowances = (\<lambda>a spender. if (a = 1 \<or> a = 2) \<and> spender = 50 then 10000000 else 0) \<rparr>"

definition w_seller :: env where
  "w_seller = \<lparr> msg_sender = 1, block_timestamp = 1700000000, tx_gasprice = 1000,
                 gas_left = 200000 \<rparr>"

definition w_buyer :: env where
  "w_buyer = \<lparr> msg_sender = 2, block_timestamp = 1700000600, tx_gasprice = 1000,
                gas_left = 200000 \<rparr>"

definition w_stranger :: env where
  "w_stranger = \<lparr> msg_sender = 3, block_timestamp = 1700000900, tx_gasprice = 1000,
                   gas_left = 200000 \<rparr>"

definition w_genesis :: "token_state ouro" where
  "w_genesis = projr (constructor 50 9 w_funds 60 70)"

definition w_listing :: "env \<times> call" where
  "w_listing = (w_seller, ListProduct ''tool'' [''search''] 1000000 ''ipfs://tool'')"

definition w_listed :: "token_state ouro" where
  "w_listed = run (plain_token True) counter_hash w_genesis [w_listing]"

definition w_bought :: "token_state ouro" where
  "w_bought = run (plain_token True) counter_hash w_genesis
     [w_listing, (w_buyer, PurchaseCall 1000)]"

definition w_reviewed :: "token_state ouro" where
  "w_reviewed = run (plain_token True) counter_hash w_genesis
     [w_listing, (w_buyer, PurchaseCall 1000), (w_buyer, LeaveReview 1000 1)]"

definition w_reviewed_twice :: "token_state ouro" where
  "w_reviewed_twice = run (plain_token True) counter_hash w_genesis
     [w_listing, (w_buyer, PurchaseCall 1000), (w_buyer, LeaveReview 1000 1),
      (w_buyer, LeaveReview 1000 2)]"

definition w_deprecated :: "token_state ouro" where
  "w_deprecated = run (plain_token True) counter_hash w_genesis
     [w_listing, (w_buyer, PurchaseCall 1000), (w_seller, DeprecateProduct 1000)]"

text \<open>
  A mirror store with one product row, the log of one purchase of it as the follower
  receives it, and the receipt of the same purchase as the client posts it, to the path
  that carries the uuid of the product row.
  \<open>exact_numbers\<close> instantiates the number operations with exact rational arithmetic
  and no rounding; the amounts used below (1, 0.08 and 0.92) have two decimal places.
\<close>

definition exact_numbers :: "rat jsnum" where
  "exact_numbers =
     \<lparr> Number_bigint = of_nat,
       Number_decimal = (\<lambda>x. x),
       div_1e6 = (\<lambda>x. x / 1000000),
       times_008 = (\<lambda>x. x * (8 / 100)),
       minus_num = (\<lambda>x y. x - y),
       toString_num = (\<lambda>x. x),
       toFixed_2 = (\<lambda>x. x),
       store_decimal = (\<lambda>x. x) \<rparr>"

text \<open>
  \<open>pg_uuid_in\<close> reads a uuid as Postgres documents it: thirty-two hexadecimal digits of
  either case, optionally with a hyphen after any group of four digits, optionally within
  braces.  Its value is the canonical text, in lower case and grouped 8-4-4-4-12.
\<close>

definition xdigit :: "char \<Rightarrow> bool" where
  "xdigit c = (c \<in> set ''0123456789abcdefABCDEF'')"

definition lower_xdigit :: "char \<Rightarrow> char" where
  "lower_xdigit c =
     (if c = CHR ''A'' then CHR ''a'' else if c = CHR ''B'' then CHR ''b''
      else if c = CHR ''C'' then CHR ''c'' else if c = CHR ''D'' then CHR ''d''
      else if c = CHR ''E'' then CHR ''e'' else if c = CHR ''F'' then CHR ''f'' else c)"

fun uuid_groups :: "nat \<Rightarrow> string \<Rightarrow> (string \<times> string) option" where
  "uuid_groups 0 src = Some ([], src)"
| "uuid_groups (Suc n) (a # b # c # d # rest) =
     (if xdigit a \<and> xdigit b \<and> xdigit c \<and> xdigit d
      then map_option
             (\<lambda>r. (lower_xdigit a # lower_xdigit b # lower_xdigit c # lower_xdigit d # fst r,
                   snd r))
             (uuid_groups n (if take 1 rest = ''-'' \<and> n \<noteq> 0 then drop 1 rest else rest))
      else None)"
| "uuid_groups (Suc n) src = None"

definition canonical_uuid :: "string \<Rightarrow> string" where
  "canonical_uuid ds =
     take 8 ds @ ''-'' @ take 4 (drop 8 ds) @ ''-'' @ take 4 (drop 12 ds) @ ''-'' @
     take 4 (drop 16 ds) @ ''-'' @ drop 20 ds"

definition pg_uuid_in :: "string \<Rightarrow> string option" where
  "pg_uuid_in s =
     (let braces = (take 1 s = ''{'');
          src = (if braces then drop 1 s else s)
      in case uuid_groups 8 src of
           None \<Rightarrow> None
         | Some r \<Rightarrow>
             if snd r = (if braces then ''}'' else []) then Some (canonical_uuid (fst r))
             else None)"

definition w_server :: server where
  "w_server =
     \<lparr> now = 1700001000, new_uuid = ''22222222-2222-2222-2222-222222222222'',
       CHAIN_ID = 84532, uuid_in = pg_uuid_in \<rparr>"

definition w_product_row :: product_row where
  "w_product_row =
     \<lparr> p_id = ''11111111-1111-1111-1111-111111111111'', p_productId = ''0xp1'',
       p_sellerAddress = ''0xseller'',
       p_name = ''tool'', p_tags = [''search''], p_priceUSDC = 1, p_totalSales = 0,
       p_totalRevenueUSDC = 0, p_lastSaleAt = None, p_updatedAt = 1700000000 \<rparr>"

definition w_mirror :: mirror where
  "w_mirror =
     \<lparr> m_products = [w_product_row], m_transactions = [], m_tagAnalytics = [],
       m_sellers = [] \<rparr>"

definition w_log :: purchased_log where
  "w_log =
     \<lparr> l_productId = Some ''0xp1'', l_buyer = Some ''0xbuyer'', l_seller = Some ''0xseller'',
       l_priceUSDC = 1000000, l_platformFee = 80000, l_transactionHash = ''0xtx1'',
       l_blockNumber = 123 \<rparr>"

definition w_receipt :: receipt_body where
  "w_receipt =
     \<lparr> b_txHash = Some ''0xtx1'', b_blockNumber = Some 123,
       b_buyerAddress = Some ''0xbuyer'' \<rparr>"

text \<open>A receipt for a transaction that no ledger has seen, from a buyer who never paid.\<close>

definition w_forged_receipt :: receipt_body where
  "w_forged_receipt =
     \<lparr> b_txHash = Some ''0xnone'', b_blockNumber = Some 7,
       b_buyerAddress = Some ''0xmallory'' \<rparr>"

definition w_mirror_followed :: mirror where
  "w_mirror_followed = onLog_ProductPurchased exact_numbers w_server w_mirror w_log"

section \<open>The receipt check as the specification words it\<close>



section \<open>Evaluation and inversion lemmas\<close>

lemmas w_defs = run_def transact_def commit_def constructor_def listProduct_def purchase_def
  deprecateProduct_def leaveReview_def plain_token_def plain_transfer_def plain_transferFrom_def
  counter_hash_def w_funds_def w_seller_def w_buyer_def w_stranger_def w_genesis_def w_listing_def
  Let_def fits256_def LISTING_FEE_def PLATFORM_FEE_BPS_def MAX_TAGS_def MAX_NAME_LENGTH_def
  zero_Product_def

lemma purchase_InrD:
  assumes "purchase tk e s productId = Inr s'"
  shows "\<exists>tok1 tok2 tok3.
     listedAt (products s productId) \<noteq> 0 \<and>
     \<not> deprecated (products s productId) \<and>
     msg_sender e \<noteq> seller (products s productId) \<and>
     transferFrom tk (usdc s) (this s) (msg_sender e) (this s)
        (priceUSDC (products s productId)) = Some (True, tok1) \<and>
     transfer tk tok1 (this s) (treasury s)
        ((priceUSDC (products s productId) * 800) div 10000) = Some (True, tok2) \<and>
     transfer tk tok2 (this s) (seller (products s productId))
        (priceUSDC (products s productId) -
           (priceUSDC (products s productId) * 800) div 10000) = Some (True, tok3) \<and>
     s' = s\<lparr> products := (products s)(productId :=
               (products s productId)\<lparr> totalSales := totalSales (products s productId) + 1,
                  totalRevenueUSDC := totalRevenueUSDC (products s productId) +
                    (priceUSDC (products s productId) -
                      (priceUSDC (products s productId) * 800) div 10000) \<rparr>),
             totalVolume := totalVolume s + priceUSDC (products s productId),
             productPurchases := (productPurchases s)(productId :=
                 productPurchases s productId @
                   [\<lparr> pu_productId = productId, pu_buyer = msg_sender e,
                      pu_amountPaid = priceUSDC (products s productId),
                      pu_purchasedAt = block_timestamp e,
                      pu_delivered = False \<rparr>]),
             hasPurchased := (hasPurchased s)(msg_sender e :=
                 (hasPurchased s (msg_sender e))(productId := True)),
             usdc := tok3,
             events := events s @
               [ProductPurchased productId (msg_sender e) (seller (products s productId))
                  (priceUSDC (products s productId))
                  ((priceUSDC (products s productId) * 800) div 10000),
                GasSponsored (msg_sender e) ''purchase''
                  (tx_gasprice e * gas_left e)] \<rparr>"
  using assms
  unfolding purchase_def Let_def PLATFORM_FEE_BPS_def
  by (auto split: if_splits option.splits prod.splits)

lemma fee_le_price: "(p * 800) div 10000 \<le> (p::nat)"
  by (simp add: div_le_dividend)

section \<open>Fee settlement\<close>

text \<open>
  C1.  Every successful purchase of a product with price \<open>p\<close> takes the platform fee
  \<open>floor (p * 800 / 10000)\<close> and the seller amount \<open>p - fee\<close>, which add up to \<open>p\<close>:
  these are the amounts of the two outgoing token transfers, and the fee is the one carried
  by the ProductPurchased event.  The sale counter of the product grows by exactly 1 and
  the seller amount, not the price, is added to its cumulative revenue.  At the price
  1000000 the fee is 80000 and the seller amount 920000.
\<close>

theorem purchase_fee_split:
  "purchase tk e s productId = Inr s' \<Longrightarrow>
   (let p = priceUSDC (products s productId);
        platformFee = (p * 800) div 10000;
        sellerAmount = p - platformFee
    in platformFee + sellerAmount = p \<and>
       totalSales (products s' productId) = totalSales (products s productId) + 1 \<and>
       totalRevenueUSDC (products s' productId) =
         totalRevenueUSDC (products s productId) + sellerAmount \<and>
       (\<exists>tok1 tok2.
          transferFrom tk (usdc s) (this s) (msg_sender e) (this s) p = Some (True, tok1) \<and>
          transfer tk tok1 (this s) (treasury s) platformFee = Some (True, tok2) \<and>
          transfer tk tok2 (this s) (seller (products s productId)) sellerAmount =
            Some (True, usdc s')) \<and>
       ProductPurchased productId (msg_sender e) (seller (products s productId)) p
         platformFee \<in> set (events s') \<and>
       (p = 1000000 \<longrightarrow> platformFee = 80000 \<and> sellerAmount = 920000))"
proof -
  assume a: "purchase tk e s productId = Inr s'"
  from purchase_InrD [OF a] obtain tok1 tok2 tok3 where
    t1: "transferFrom tk (usdc s) (this s) (msg_sender e) (this s)
        (priceUSDC (products s productId)) = Some (True, tok1)" and
    t2: "transfer tk tok1 (this s) (treasury s)
        ((priceUSDC (products s productId) * 800) div 10000) = Some (True, tok2)" and
    t3: "transfer tk tok2 (this s) (seller (products s productId))
        (priceUSDC (products s productId) -
           (priceUSDC (products s productId) * 800) div 10000) = Some (True, tok3)" and
    s': "s' = s\<lparr> products := (products s)(productId :=
               (products s productId)\<lparr> totalSales := totalSales (products s productId) + 1,
                  totalRevenueUSDC := totalRevenueUSDC (products s productId) +
                    (priceUSDC (products s productId) -
                      (priceUSDC (products s productId) * 800) div 10000) \<rparr>),
             totalVolume := totalVolume s + priceUSDC (products s productId),
             productPurchases := (productPurchases s)(productId :=
                 productPurchases s productId @
                   [\<lparr> pu_productId = productId, pu_buyer = msg_sender e,
                      pu_amountPaid = priceUSDC (products s productId),
                      pu_purchasedAt = block_timestamp e,
                      pu_delivered = False \<rparr>]),
             hasPurchased := (hasPurchased s)(msg_sender e :=
                 (hasPurchased s (msg_sender e))(productId := True)),
             usdc := tok3,
             events := events s @
               [ProductPurchased productId (msg_sender e) (seller (products s productId))
                  (priceUSDC (products s productId))
                  ((priceUSDC (products s productId) * 800) div 10000),
                GasSponsored (msg_sender e) ''purchase''
                  (tx_gasprice e * gas_left e)] \<rparr>"
    by blast
  have u: "usdc s' = tok3" by (simp add: s')
  show ?thesis
    unfolding Let_def
    using t1 t2 t3 u fee_le_price [of "priceUSDC (products s productId)"]
    by (simp add: s')
qed

lemma w_purchase: "purchase (plain_token True) w_buyer w_listed 1000 = Inr w_bought"
  by (simp add: w_listed_def w_bought_def w_defs)

theorem purchase_fee_split_witness:
  "purchase (plain_token True) w_buyer w_listed 1000 = Inr w_bought \<and>
   priceUSDC (products w_listed 1000) = 1000000 \<and>
   totalSales (products w_listed 1000) = 0 \<and>
   totalSales (products w_bought 1000) = 1 \<and>
   totalRevenueUSDC (products w_bought 1000) = 920000 \<and>
   ProductPurchased 1000 2 1 1000000 80000 \<in> set (events w_bought)"
proof -
  have p: "priceUSDC (products w_listed 1000) = 1000000"
    "totalSales (products w_listed 1000) = 0"
    "totalRevenueUSDC (products w_listed 1000) = 0"
    "seller (products w_listed 1000) = 1"
    "msg_sender w_buyer = 2"
    by (simp_all add: w_listed_def w_defs)
  from purchase_fee_split [OF w_purchase] show ?thesis
    using w_purchase p by (simp add: Let_def)
qed

section \<open>Listing\<close>

lemma listProduct_InrD:
  assumes "listProduct tk keccak e s nm tgs price uri = Inr (productId, s')"
  shows "\<exists>tok1.
     nm \<noteq> [] \<and> length nm \<le> 100 \<and> tgs \<noteq> [] \<and> length tgs \<le> 8 \<and>
     100000 \<le> price \<and> price \<le> 10000000000 \<and> uri \<noteq> [] \<and>
     transferFrom tk (usdc s) (this s) (msg_sender e) (treasury s) 2000000 = Some (True, tok1) \<and>
     productId = keccak (msg_sender e) nm (block_timestamp e) (totalProducts s) \<and>
     s' = s\<lparr> products := (products s)(productId :=
                 \<lparr> id_Product = productId, seller = msg_sender e, name = nm, tags = tgs,
                   priceUSDC = price, metadataURI = uri, totalSales = 0,
                   totalRevenueUSDC = 0, listedAt = block_timestamp e,
                   deprecated = False \<rparr>),
             totalProducts := totalProducts s + 1,
             usdc := tok1,
             events := events s @
               [ProductListed productId (msg_sender e) nm tgs price uri,
                GasSponsored (msg_sender e) ''listProduct''
                  (tx_gasprice e * gas_left e)] \<rparr>"
  using assms
  unfolding listProduct_def Let_def LISTING_FEE_def MAX_TAGS_def MAX_NAME_LENGTH_def
  by (auto split: if_splits option.splits prod.splits)

text \<open>
  C8.  A listing that succeeds had a name of 1 to 100 bytes, 1 to 8 tags and a price between
  100000 and 10000 * 10^6 minor units, and its one call of the token, a transferFrom of
  exactly LISTING_FEE = 2000000 from the caller to the treasury, returned true: the token
  state of the result is the state left by that single call.  The product it creates is
  not deprecated, carries the submitted price, and has sale counter and revenue zero.
\<close>

theorem listProduct_success:
  "listProduct tk keccak e s nm tgs price uri = Inr (productId, s') \<Longrightarrow>
     nm \<noteq> [] \<and> length nm \<le> 100 \<and>
     1 \<le> length tgs \<and> length tgs \<le> 8 \<and>
     100000 \<le> price \<and> price \<le> 10000 * 10 ^ 6 \<and>
     transferFrom tk (usdc s) (this s) (msg_sender e) (treasury s) LISTING_FEE =
       Some (True, usdc s') \<and>
     LISTING_FEE = 2000000 \<and>
     priceUSDC (products s' productId) = price \<and>
     \<not> deprecated (products s' productId) \<and>
     totalSales (products s' productId) = 0 \<and>
     totalRevenueUSDC (products s' productId) = 0 \<and>
     seller (products s' productId) = msg_sender e \<and>
     id_Product (products s' productId) = productId"
proof -
  assume a: "listProduct tk keccak e s nm tgs price uri = Inr (productId, s')"
  from listProduct_InrD [OF a] obtain tok1 where
    v: "nm \<noteq> []" "length nm \<le> 100" "tgs \<noteq> []" "length tgs \<le> 8"
       "100000 \<le> price" "price \<le> 10000000000" and
    t: "transferFrom tk (usdc s) (this s) (msg_sender e) (treasury s) 2000000 = Some (True, tok1)" and
    s': "s' = s\<lparr> products := (products s)(productId :=
                 \<lparr> id_Product = productId, seller = msg_sender e, name = nm, tags = tgs,
                   priceUSDC = price, metadataURI = uri, totalSales = 0,
                   totalRevenueUSDC = 0, listedAt = block_timestamp e,
                   deprecated = False \<rparr>),
             totalProducts := totalProducts s + 1,
             usdc := tok1,
             events := events s @
               [ProductListed productId (msg_sender e) nm tgs price uri,
                GasSponsored (msg_sender e) ''listProduct''
                  (tx_gasprice e * gas_left e)] \<rparr>"
    by blast
  have l: "1 \<le> length tgs" using v(3) by (cases tgs) simp_all
  show ?thesis using v l t by (simp add: s' LISTING_FEE_def)
qed

lemma w_list:
  "listProduct (plain_token True) counter_hash w_seller w_genesis
     ''tool'' [''search''] 1000000 ''ipfs://tool'' = Inr (1000, w_listed)"
  by (simp add: w_listed_def w_defs)

theorem listProduct_success_witness:
  "listProduct (plain_token True) counter_hash w_seller w_genesis
     ''tool'' [''search''] 1000000 ''ipfs://tool'' = Inr (1000, w_listed) \<and>
   priceUSDC (products w_listed 1000) = 1000000 \<and>
   \<not> deprecated (products w_listed 1000) \<and>
   totalSales (products w_listed 1000) = 0 \<and>
   totalRevenueUSDC (products w_listed 1000) = 0 \<and>
   balances (usdc w_genesis) 1 = 10000000 \<and>
   balances (usdc w_listed) 1 = 8000000 \<and>
   balances (usdc w_listed) 70 = 2000000"
proof -
  have b: "balances (usdc w_genesis) 1 = 10000000"
    "balances (usdc w_listed) 1 = 8000000"
    "balances (usdc w_listed) 70 = 2000000"
    by (simp_all add: w_listed_def w_defs)
  from listProduct_success [OF w_list] show ?thesis
    using w_list b by simp
qed

section \<open>Failing purchases\<close>

text \<open>
  C6, as the claim states it, fails in its fourth part.  On the sample market account 3,
  which holds no tokens, buys the listed product from a token that reverts on a transfer
  the balance does not cover.  The checks on the product and the caller pass, the payment
  transfer cannot be completed, and the call fails with the revert of the token, not with
  USDCTransferFailed, the contract's error for a failed transfer.
\<close>

theorem unpaid_purchase_reverts_in_token:
  "listedAt (products w_listed 1000) \<noteq> 0 \<and> \<not> deprecated (products w_listed 1000) \<and>
   msg_sender w_stranger \<noteq> seller (products w_listed 1000) \<and>
   balances (usdc w_listed) (msg_sender w_stranger) < priceUSDC (products w_listed 1000) \<and>
   transferFrom (plain_token True) (usdc w_listed) (this w_listed) (msg_sender w_stranger)
     (this w_listed) (priceUSDC (products w_listed 1000)) = None \<and>
   purchase (plain_token True) w_stranger w_listed 1000 = Inl TokenReverted \<and>
   purchase (plain_token True) w_stranger w_listed 1000 \<noteq> Inl USDCTransferFailed"
  by (simp add: w_listed_def w_defs)

text \<open>
  C6, amended.  The checks of \<open>purchase\<close> are made in the order of the source, and each
  error is stated for the calls that pass the checks before it.  A product that was never
  listed (listedAt = 0) gives ProductNotFound; a listed product whose deprecated flag is set
  gives ProductIsDeprecated; an active product bought by its seller gives
  CannotBuyOwnProduct.  When these pass and the fee computation does not overflow, a
  payment transfer that cannot be completed fails the call in one of two ways: with
  USDCTransferFailed when the token returns false, and with the revert of the token when
  the token itself reverts.  Whatever the error, the transaction leaves the ledger in the
  state it found: counters, revenue, proof of purchase, purchase records and token
  balances.
\<close>

theorem purchase_failures:
  "(listedAt (products s productId) = 0 \<longrightarrow>
      purchase tk e s productId = Inl ProductNotFound) \<and>
   (listedAt (products s productId) \<noteq> 0 \<and> deprecated (products s productId) \<longrightarrow>
      purchase tk e s productId = Inl ProductIsDeprecated) \<and>
   (listedAt (products s productId) \<noteq> 0 \<and> \<not> deprecated (products s productId) \<and>
    msg_sender e = seller (products s productId) \<longrightarrow>
      purchase tk e s productId = Inl CannotBuyOwnProduct) \<and>
   (listedAt (products s productId) \<noteq> 0 \<and> \<not> deprecated (products s productId) \<and>
    msg_sender e \<noteq> seller (products s productId) \<and>
    fits256 (priceUSDC (products s productId) * PLATFORM_FEE_BPS) \<longrightarrow>
      (\<forall>tok1. transferFrom tk (usdc s) (this s) (msg_sender e) (this s)
                (priceUSDC (products s productId)) = Some (False, tok1) \<longrightarrow>
         purchase tk e s productId = Inl USDCTransferFailed) \<and>
      (transferFrom tk (usdc s) (this s) (msg_sender e) (this s)
                (priceUSDC (products s productId)) = None \<longrightarrow>
         purchase tk e s productId = Inl TokenReverted)) \<and>
   (\<forall>err. purchase tk e s productId = Inl err \<longrightarrow>
      transact tk keccak s (e, PurchaseCall productId) = s)"
proof -
  have le: "\<not> priceUSDC (products s productId) <
     priceUSDC (products s productId) * PLATFORM_FEE_BPS div 10000"
    using fee_le_price [of "priceUSDC (products s productId)"]
    by (simp add: PLATFORM_FEE_BPS_def)
  have 1: "listedAt (products s productId) = 0 \<longrightarrow>
      purchase tk e s productId = Inl ProductNotFound"
    by (simp add: purchase_def)
  have 2: "listedAt (products s productId) \<noteq> 0 \<and> deprecated (products s productId) \<longrightarrow>
      purchase tk e s productId = Inl ProductIsDeprecated"
    by (simp add: purchase_def Let_def)
  have 3: "listedAt (products s productId) \<noteq> 0 \<and> \<not> deprecated (products s productId) \<and>
    msg_sender e = seller (products s productId) \<longrightarrow>
      purchase tk e s productId = Inl CannotBuyOwnProduct"
    by (simp add: purchase_def Let_def)
  have 4: "listedAt (products s productId) \<noteq> 0 \<and> \<not> deprecated (products s productId) \<and>
    msg_sender e \<noteq> seller (products s productId) \<and>
    fits256 (priceUSDC (products s productId) * PLATFORM_FEE_BPS) \<longrightarrow>
      (\<forall>tok1. transferFrom tk (usdc s) (this s) (msg_sender e) (this s)
                (priceUSDC (products s productId)) = Some (False, tok1) \<longrightarrow>
         purchase tk e s productId = Inl USDCTransferFailed) \<and>
      (transferFrom tk (usdc s) (this s) (msg_sender e) (this s)
                (priceUSDC (products s productId)) = None \<longrightarrow>
         purchase tk e s productId = Inl TokenReverted)"
    using le by (simp add: purchase_def Let_def)
  have 5: "\<forall>err. purchase tk e s productId = Inl err \<longrightarrow>
      transact tk keccak s (e, PurchaseCall productId) = s"
    by (simp add: transact_def commit_def)
  from 1 2 3 4 5 show ?thesis by blast
qed

theorem purchase_failures_witness:
  "listedAt (products w_genesis 1000) = 0 \<and>
   purchase (plain_token True) w_buyer w_genesis 1000 = Inl ProductNotFound \<and>
   listedAt (products w_deprecated 1000) \<noteq> 0 \<and> deprecated (products w_deprecated 1000) \<and>
   purchase (plain_token True) w_stranger w_deprecated 1000 = Inl ProductIsDeprecated \<and>
   listedAt (products w_listed 1000) \<noteq> 0 \<and> \<not> deprecated (products w_listed 1000) \<and>
   msg_sender w_seller = seller (products w_listed 1000) \<and>
   purchase (plain_token True) w_seller w_listed 1000 = Inl CannotBuyOwnProduct \<and>
   msg_sender w_stranger \<noteq> seller (products w_listed 1000) \<and>
   fits256 (priceUSDC (products w_listed 1000) * PLATFORM_FEE_BPS) \<and>
   transferFrom (plain_token False) (usdc w_listed) (this w_listed) (msg_sender w_stranger)
     (this w_listed) (priceUSDC (products w_listed 1000)) = Some (False, usdc w_listed) \<and>
   purchase (plain_token False) w_stranger w_listed 1000 = Inl USDCTransferFailed \<and>
   transferFrom (plain_token True) (usdc w_listed) (this w_listed) (msg_sender w_stranger)
     (this w_listed) (priceUSDC (products w_listed 1000)) = None \<and>
   purchase (plain_token True) w_stranger w_listed 1000 = Inl TokenReverted \<and>
   transact (plain_token False) counter_hash w_listed (w_stranger, PurchaseCall 1000) = w_listed"
proof -
  have g: "listedAt (products w_genesis 1000) = 0"
    by (simp add: w_defs)
  have d: "listedAt (products w_deprecated 1000) \<noteq> 0 \<and> deprecated (products w_deprecated 1000)"
    by (simp add: w_deprecated_def w_defs)
  have l: "listedAt (products w_listed 1000) \<noteq> 0" "\<not> deprecated (products w_listed 1000)"
    "msg_sender w_seller = seller (products w_listed 1000)"
    "msg_sender w_stranger \<noteq> seller (products w_listed 1000)"
    "fits256 (priceUSDC (products w_listed 1000) * PLATFORM_FEE_BPS)"
    by (simp_all add: w_listed_def w_defs)
  have f: "transferFrom (plain_token False) (usdc w_listed) (this w_listed)
     (msg_sender w_stranger) (this w_listed) (priceUSDC (products w_listed 1000)) =
       Some (False, usdc w_listed)"
    by (simp add: w_listed_def w_defs)
  have r: "transferFrom (plain_token True) (usdc w_listed) (this w_listed)
     (msg_sender w_stranger) (this w_listed) (priceUSDC (products w_listed 1000)) = None"
    by (simp add: w_listed_def w_defs)
  have 1: "purchase (plain_token True) w_buyer w_genesis 1000 = Inl ProductNotFound"
    using purchase_failures [of w_genesis 1000 "plain_token True" w_buyer counter_hash] g
    by blast
  have 2: "purchase (plain_token True) w_stranger w_deprecated 1000 = Inl ProductIsDeprecated"
    using purchase_failures [of w_deprecated 1000 "plain_token True" w_stranger counter_hash] d
    by blast
  have 3: "purchase (plain_token True) w_seller w_listed 1000 = Inl CannotBuyOwnProduct"
    using purchase_failures [of w_listed 1000 "plain_token True" w_seller counter_hash] l
    by blast
  have 4: "purchase (plain_token False) w_stranger w_listed 1000 = Inl USDCTransferFailed"
    using purchase_failures [of w_listed 1000 "plain_token False" w_stranger counter_hash] l f
    by blast
  have 5: "purchase (plain_token True) w_stranger w_listed 1000 = Inl TokenReverted"
    using purchase_failures [of w_listed 1000 "plain_token True" w_stranger counter_hash] l r
    by blast
  have 6: "transact (plain_token False) counter_hash w_listed (w_stranger, PurchaseCall 1000) =
      w_listed"
    using purchase_failures [of w_listed 1000 "plain_token False" w_stranger counter_hash] 4
    by blast
  from g d l f r 1 2 3 4 5 6 show ?thesis by blast
qed

section \<open>Reviews\<close>

lemma leaveReview_InrD:
  assumes "leaveReview e s productId rating = Inr s'"
  shows "1 \<le> unat rating \<and> unat rating \<le> 5 \<and> unat rating * 100 < 256 \<and>
     hasPurchased s (msg_sender e) productId \<and>
     listedAt (products s productId) \<noteq> 0 \<and>
     s' = s\<lparr> productReviewCount := (productReviewCount s)(productId :=
                 productReviewCount s productId + 1),
             productRatings := (productRatings s)(productId :=
                 (productRatings s productId * productReviewCount s productId +
                    unat rating * 100) div (productReviewCount s productId + 1)),
             events := events s @
               [ProductReviewed productId (msg_sender e) rating
                  ((productRatings s productId * productReviewCount s productId +
                    unat rating * 100) div (productReviewCount s productId + 1)),
                GasSponsored (msg_sender e) ''leaveReview''
                  (tx_gasprice e * gas_left e)] \<rparr>"
proof -
  have r: "\<not> (rating < 1 \<or> rating > 5)"
    using assms by (auto simp: leaveReview_def)
  then have "\<not> unat rating < unat (1 :: uint8)" "\<not> unat (5 :: uint8) < unat rating"
    unfolding word_less_nat_alt by blast+
  then have u: "1 \<le> unat rating" "unat rating \<le> 5"
    by simp_all
  show ?thesis
    using assms r u
    unfolding leaveReview_def Let_def
    by (auto split: if_splits)
qed

lemma rolling_average_le:
  fixes a n r M :: nat
  assumes "r \<le> M" and "n = 0 \<or> a \<le> 100 * M"
  shows "(a * n + r * 100) div (n + 1) \<le> 100 * M"
proof -
  have "a * n \<le> 100 * M * n"
    using assms(2) by (cases "n = 0") simp_all
  moreover have "r * 100 \<le> 100 * M"
    using assms(1) by simp
  ultimately have "a * n + r * 100 \<le> 100 * M * n + 100 * M"
    by (rule add_mono)
  moreover have "100 * M * n + 100 * M = 100 * M * (n + 1)"
    by simp
  ultimately have "a * n + r * 100 \<le> 100 * M * (n + 1)"
    by simp
  then have "(a * n + r * 100) div (n + 1) \<le> (100 * M * (n + 1)) div (n + 1)"
    by (rule div_le_mono)
  also have "(100 * M * (n + 1)) div (n + 1) = 100 * M"
    by (rule nonzero_mult_div_cancel_right) simp
  finally show ?thesis .
qed

text \<open>
  C7.  A review that succeeds with rating \<open>r\<close> on a product with stored average \<open>a\<close> and
  review count \<open>n\<close> stores the average \<open>(a * n + r * 100) div (n + 1)\<close>, where \<open>div\<close> on
  natural numbers truncates, and the count \<open>n + 1\<close>; the rating lies between 1 and 5.
  The new average stays below 100 times any bound \<open>M\<close> on the ratings so far: if
  \<open>r \<le> M\<close>, and the old average is at most \<open>100 * M\<close> or there was no review yet, then
  the new average is at most \<open>100 * M\<close>.
\<close>

theorem leaveReview_average:
  "leaveReview e s productId rating = Inr s' \<Longrightarrow>
   (let a = productRatings s productId;
        n = productReviewCount s productId;
        r = unat rating
    in 1 \<le> r \<and> r \<le> 5 \<and>
       productRatings s' productId = (a * n + r * 100) div (n + 1) \<and>
       productReviewCount s' productId = n + 1 \<and>
       (\<forall>M. r \<le> M \<and> (n = 0 \<or> a \<le> 100 * M) \<longrightarrow>
          productRatings s' productId \<le> 100 * M))"
proof -
  assume a: "leaveReview e s productId rating = Inr s'"
  note d = leaveReview_InrD [OF a]
  have avg: "productRatings s' productId =
      (productRatings s productId * productReviewCount s productId + unat rating * 100)
        div (productReviewCount s productId + 1)"
    using d by simp
  have cnt: "productReviewCount s' productId = productReviewCount s productId + 1"
    using d by simp
  have bnd: "\<forall>M. unat rating \<le> M \<and>
      (productReviewCount s productId = 0 \<or> productRatings s productId \<le> 100 * M) \<longrightarrow>
      productRatings s' productId \<le> 100 * M"
    unfolding avg using rolling_average_le by blast
  show ?thesis
    unfolding Let_def using d avg cnt bnd by blast
qed

lemma w_review: "leaveReview w_buyer w_bought 1000 1 = Inr w_reviewed"
  by (simp add: w_bought_def w_reviewed_def w_defs)

lemma w_review_again: "leaveReview w_buyer w_reviewed 1000 2 = Inr w_reviewed_twice"
  by (simp add: w_reviewed_twice_def w_reviewed_def w_defs)

theorem leaveReview_average_witness:
  "leaveReview w_buyer w_reviewed 1000 2 = Inr w_reviewed_twice \<and>
   productRatings w_reviewed 1000 = 100 \<and> productReviewCount w_reviewed 1000 = 1 \<and>
   unat (2 :: uint8) \<le> 2 \<and> productRatings w_reviewed 1000 \<le> 100 * 2 \<and>
   productRatings w_reviewed_twice 1000 = 150 \<and>
   productReviewCount w_reviewed_twice 1000 = 2 \<and>
   productRatings w_reviewed_twice 1000 \<le> 100 * 2"
proof -
  have v: "productRatings w_reviewed 1000 = 100" "productReviewCount w_reviewed 1000 = 1"
    by (simp_all add: w_reviewed_def w_defs)
  from leaveReview_average [OF w_review_again] show ?thesis
    using w_review_again v by (simp add: Let_def numeral_2_eq_2 [symmetric])
qed

text \<open>
  Along a history the bound of C7 closes up: in every state reached from the constructor,
  the stored average of a product is at most 100 times the highest rating among the
  reviews of that product that the event log records.
\<close>

lemma max_rating_append:
  "max_rating (xs @ ys) productId = max (max_rating xs productId) (max_rating ys productId)"
  by (induction xs productId rule: max_rating.induct) (simp_all add: max.assoc)

lemma dispatch_keeps_average_bound:
  assumes inv: "\<forall>p. productRatings s p \<le> 100 * max_rating (events s) p"
    and d: "dispatch tk keccak e s c = Inr s'"
  shows "\<forall>p. productRatings s' p \<le> 100 * max_rating (events s') p"
proof (cases c)
  case (ListProduct nm tgs price uri)
  with d obtain productId where
    l: "listProduct tk keccak e s nm tgs price uri = Inr (productId, s')"
    by (cases "listProduct tk keccak e s nm tgs price uri") auto
  from listProduct_InrD [OF l] obtain tok1 where
    "s' = s\<lparr> products := (products s)(productId :=
                 \<lparr> id_Product = productId, seller = msg_sender e, name = nm, tags = tgs,
                   priceUSDC = price, metadataURI = uri, totalSales = 0,
                   totalRevenueUSDC = 0, listedAt = block_timestamp e,
                   deprecated = False \<rparr>),
             totalProducts := totalProducts s + 1,
             usdc := tok1,
             events := events s @
               [ProductListed productId (msg_sender e) nm tgs price uri,
                GasSponsored (msg_sender e) ''listProduct''
                  (tx_gasprice e * gas_left e)] \<rparr>"
    by blast
  then show ?thesis using inv by (simp add: max_rating_append)
next
  case (PurchaseCall productId)
  with d have p: "purchase tk e s productId = Inr s'" by simp
  from purchase_InrD [OF p] obtain tok3 where
    "s' = s\<lparr> products := (products s)(productId :=
               (products s productId)\<lparr> totalSales := totalSales (products s productId) + 1,
                  totalRevenueUSDC := totalRevenueUSDC (products s productId) +
                    (priceUSDC (products s productId) -
                      (priceUSDC (products s productId) * 800) div 10000) \<rparr>),
             totalVolume := totalVolume s + priceUSDC (products s productId),
             productPurchases := (productPurchases s)(productId :=
                 productPurchases s productId @
                   [\<lparr> pu_productId = productId, pu_buyer = msg_sender e,
                      pu_amountPaid = priceUSDC (products s productId),
                      pu_purchasedAt = block_timestamp e,
                      pu_delivered = False \<rparr>]),
             hasPurchased := (hasPurchased s)(msg_sender e :=
                 (hasPurchased s (msg_sender e))(productId := True)),
             usdc := tok3,
             events := events s @
               [ProductPurchased productId (msg_sender e) (seller (products s productId))
                  (priceUSDC (products s productId))
                  ((priceUSDC (products s productId) * 800) div 10000),
                GasSponsored (msg_sender e) ''purchase''
                  (tx_gasprice e * gas_left e)] \<rparr>"
    by blast
  then show ?thesis using inv by (simp add: max_rating_append)
next
  case (LeaveReview productId rating)
  with d have r: "leaveReview e s productId rating = Inr s'" by simp
  note i = leaveReview_InrD [OF r]
  have ev: "max_rating (events s') p =
      (if p = productId then max (max_rating (events s) p) (unat rating)
       else max_rating (events s) p)" for p
    using i by (simp add: max_rating_append)
  have new: "productRatings s' productId \<le>
      100 * max (max_rating (events s) productId) (unat rating)"
  proof -
    have "productRatings s productId \<le>
        100 * max (max_rating (events s) productId) (unat rating)"
      using inv [rule_format, of productId] by (simp add: max_def)
    then have "(productRatings s productId * productReviewCount s productId +
          unat rating * 100) div (productReviewCount s productId + 1) \<le>
        100 * max (max_rating (events s) productId) (unat rating)"
      by (intro rolling_average_le) simp_all
    then show ?thesis using i by simp
  qed
  have old: "productRatings s' p = productRatings s p" if "p \<noteq> productId" for p
    using i that by simp
  show ?thesis
  proof
    fix p
    show "productRatings s' p \<le> 100 * max_rating (events s') p"
    proof (cases "p = productId")
      case True
      then show ?thesis using new ev [of p] by simp
    next
      case False
      then show ?thesis using old [of p] ev [of p] inv by simp
    qed
  qed
next
  case (DeprecateProduct productId)
  with d inv show ?thesis
    by (auto simp: deprecateProduct_def Let_def max_rating_append split: if_splits)
next
  case (UpdateTreasury a)
  with d inv show ?thesis
    by (auto simp: updateTreasury_def max_rating_append split: if_splits)
next
  case EmergencyWithdraw
  with d inv show ?thesis
    by (auto simp: emergencyWithdraw_def Let_def split: if_splits option.splits)
next
  case (TransferOwnership a)
  with d inv show ?thesis
    by (auto simp: transferOwnership_def max_rating_append split: if_splits)
next
  case RenounceOwnership
  with d inv show ?thesis
    by (auto simp: renounceOwnership_def max_rating_append split: if_splits)
qed

lemma run_keeps_average_bound:
  "\<forall>p. productRatings s p \<le> 100 * max_rating (events s) p \<Longrightarrow>
   \<forall>p. productRatings (run tk keccak s txs) p \<le>
     100 * max_rating (events (run tk keccak s txs)) p"
proof (induction txs arbitrary: s)
  case Nil
  then show ?case by (simp add: run_def)
next
  case (Cons tx txs)
  have "\<forall>p. productRatings (transact tk keccak s tx) p \<le>
      100 * max_rating (events (transact tk keccak s tx)) p"
  proof (cases "dispatch tk keccak (fst tx) s (snd tx)")
    case (Inl err)
    then show ?thesis using Cons.prems by (simp add: transact_def commit_def)
  next
    case (Inr s')
    from dispatch_keeps_average_bound [OF Cons.prems Inr] Inr show ?thesis
      by (simp add: transact_def commit_def)
  qed
  from Cons.IH [OF this] show ?case by (simp add: run_def)
qed

lemma average_bounded_by_reviews:
  assumes "constructor self deployer tok usdc_addr treasury_addr = Inr s0"
  shows "productRatings (run tk keccak s0 txs) productId \<le>
     100 * max_rating (events (run tk keccak s0 txs)) productId"
proof -
  have "\<forall>p. productRatings s0 p \<le> 100 * max_rating (events s0) p"
    using assms by (auto simp: constructor_def split: if_splits)
  from run_keeps_average_bound [OF this] show ?thesis by blast
qed

section \<open>Proof of purchase\<close>

lemma purchase_frame:
  assumes "purchase tk e s productId = Inr s'"
  shows "listedAt (products s productId) \<noteq> 0"
    and "hasPurchased s' b p = (hasPurchased s b p \<or> (b = msg_sender e \<and> p = productId))"
    and "listedAt (products s' p) = listedAt (products s p)"
proof -
  from purchase_InrD [OF assms] obtain tok3 where
    l: "listedAt (products s productId) \<noteq> 0" and
    s': "s' = s\<lparr> products := (products s)(productId :=
               (products s productId)\<lparr> totalSales := totalSales (products s productId) + 1,
                  totalRevenueUSDC := totalRevenueUSDC (products s productId) +
                    (priceUSDC (products s productId) -
                      (priceUSDC (products s productId) * 800) div 10000) \<rparr>),
             totalVolume := totalVolume s + priceUSDC (products s productId),
             productPurchases := (productPurchases s)(productId :=
                 productPurchases s productId @
                   [\<lparr> pu_productId = productId, pu_buyer = msg_sender e,
                      pu_amountPaid = priceUSDC (products s productId),
                      pu_purchasedAt = block_timestamp e,
                      pu_delivered = False \<rparr>]),
             hasPurchased := (hasPurchased s)(msg_sender e :=
                 (hasPurchased s (msg_sender e))(productId := True)),
             usdc := tok3,
             events := events s @
               [ProductPurchased productId (msg_sender e) (seller (products s productId))
                  (priceUSDC (products s productId))
                  ((priceUSDC (products s productId) * 800) div 10000),
                GasSponsored (msg_sender e) ''purchase''
                  (tx_gasprice e * gas_left e)] \<rparr>"
    by blast
  show "listedAt (products s productId) \<noteq> 0" by (rule l)
  show "hasPurchased s' b p = (hasPurchased s b p \<or> (b = msg_sender e \<and> p = productId))"
    by (simp add: s')
  show "listedAt (products s' p) = listedAt (products s p)"
    by (simp add: s')
qed

lemma listProduct_frame:
  assumes "listProduct tk keccak e s nm tgs price uri = Inr (productId, s')"
  shows "hasPurchased s' = hasPurchased s"
    and "listedAt (products s' p) =
           (if p = productId then block_timestamp e else listedAt (products s p))"
proof -
  from listProduct_InrD [OF assms] obtain tok1 where
    s': "s' = s\<lparr> products := (products s)(productId :=
                 \<lparr> id_Product = productId, seller = msg_sender e, name = nm, tags = tgs,
                   priceUSDC = price, metadataURI = uri, totalSales = 0,
                   totalRevenueUSDC = 0, listedAt = block_timestamp e,
                   deprecated = False \<rparr>),
             totalProducts := totalProducts s + 1,
             usdc := tok1,
             events := events s @
               [ProductListed productId (msg_sender e) nm tgs price uri,
                GasSponsored (msg_sender e) ''listProduct''
                  (tx_gasprice e * gas_left e)] \<rparr>"
    by blast
  show "hasPurchased s' = hasPurchased s" by (simp add: s')
  show "listedAt (products s' p) =
           (if p = productId then block_timestamp e else listedAt (products s p))"
    by (simp add: s')
qed

lemma leaveReview_frame:
  assumes "leaveReview e s productId rating = Inr s'"
  shows "hasPurchased s' = hasPurchased s" and "products s' = products s"
  using leaveReview_InrD [OF assms] by simp_all

lemma deprecateProduct_frame:
  assumes "deprecateProduct e s productId = Inr s'"
  shows "hasPurchased s' = hasPurchased s"
    and "listedAt (products s' p) = listedAt (products s p)"
  using assms by (auto simp: deprecateProduct_def Let_def split: if_splits)

lemma admin_frame:
  assumes "updateTreasury e s a = Inr s' \<or> emergencyWithdraw tk e s = Inr s' \<or>
     transferOwnership e s a = Inr s' \<or> renounceOwnership e s = Inr s'"
  shows "hasPurchased s' = hasPurchased s" and "products s' = products s"
  using assms
  by (auto simp: updateTreasury_def emergencyWithdraw_def transferOwnership_def
      renounceOwnership_def Let_def split: if_splits option.splits)

lemma dispatch_keeps_listed:
  assumes inv: "\<forall>b p. hasPurchased s b p \<longrightarrow> listedAt (products s p) \<noteq> 0"
    and ts: "0 < block_timestamp e"
    and d: "dispatch tk keccak e s c = Inr s'"
  shows "\<forall>b p. hasPurchased s' b p \<longrightarrow> listedAt (products s' p) \<noteq> 0"
proof (cases c)
  case (ListProduct nm tgs price uri)
  with d obtain productId where
    l: "listProduct tk keccak e s nm tgs price uri = Inr (productId, s')"
    by (cases "listProduct tk keccak e s nm tgs price uri") auto
  show ?thesis
    using inv ts by (simp add: listProduct_frame [OF l])
next
  case (PurchaseCall productId)
  with d have p: "purchase tk e s productId = Inr s'" by simp
  show ?thesis
    using inv purchase_frame(1) [OF p]
    by (auto simp: purchase_frame(2) [OF p] purchase_frame(3) [OF p])
next
  case (LeaveReview productId rating)
  with d have r: "leaveReview e s productId rating = Inr s'" by simp
  show ?thesis using inv by (simp add: leaveReview_frame [OF r])
next
  case (DeprecateProduct productId)
  with d have r: "deprecateProduct e s productId = Inr s'" by simp
  show ?thesis using inv by (simp add: deprecateProduct_frame [OF r])
next
  case (UpdateTreasury a)
  with d have "updateTreasury e s a = Inr s'" by simp
  then show ?thesis using inv admin_frame [of e s a s' tk] by simp
next
  case EmergencyWithdraw
  with d have "emergencyWithdraw tk e s = Inr s'" by simp
  then show ?thesis using inv admin_frame [of e s _ s' tk] by simp
next
  case (TransferOwnership a)
  with d have "transferOwnership e s a = Inr s'" by simp
  then show ?thesis using inv admin_frame [of e s a s' tk] by simp
next
  case RenounceOwnership
  with d have "renounceOwnership e s = Inr s'" by simp
  then show ?thesis using inv admin_frame [of e s _ s' tk] by simp
qed

lemma transact_keeps_listed:
  assumes "\<forall>b p. hasPurchased s b p \<longrightarrow> listedAt (products s p) \<noteq> 0"
    and "0 < block_timestamp (fst tx)"
  shows "\<forall>b p. hasPurchased (transact tk keccak s tx) b p \<longrightarrow>
           listedAt (products (transact tk keccak s tx) p) \<noteq> 0"
proof (cases "dispatch tk keccak (fst tx) s (snd tx)")
  case (Inl err)
  then show ?thesis using assms(1) by (simp add: transact_def commit_def)
next
  case (Inr s')
  from dispatch_keeps_listed [OF assms Inr] Inr show ?thesis
    by (simp add: transact_def commit_def)
qed

lemma run_keeps_listed:
  "\<forall>b p. hasPurchased s b p \<longrightarrow> listedAt (products s p) \<noteq> 0 \<Longrightarrow>
   \<forall>tx \<in> set txs. 0 < block_timestamp (fst tx) \<Longrightarrow>
   \<forall>b p. hasPurchased (run tk keccak s txs) b p \<longrightarrow>
     listedAt (products (run tk keccak s txs) p) \<noteq> 0"
proof (induction txs arbitrary: s)
  case Nil
  then show ?case by (simp add: run_def)
next
  case (Cons tx txs)
  have t: "0 < block_timestamp (fst tx)" using Cons.prems(2) by simp
  have r: "\<forall>tx \<in> set txs. 0 < block_timestamp (fst tx)" using Cons.prems(2) by simp
  have "\<forall>b p. hasPurchased (transact tk keccak s tx) b p \<longrightarrow>
           listedAt (products (transact tk keccak s tx) p) \<noteq> 0"
    by (rule transact_keeps_listed [OF Cons.prems(1) t])
  from Cons.IH [OF this r] show ?case
    by (simp add: run_def)
qed

text \<open>
  C9.  Take any state reached from the constructor by a history of transactions whose
  blocks carry a nonzero timestamp (block.timestamp counts seconds from 1970).  In it,
  a buyer's proof of purchase for a product implies that the product exists, that is,
  that its listedAt is nonzero.  Hence a call of \<open>leaveReview\<close> whose sender holds proof
  of purchase never ends in ProductNotFound.
\<close>

theorem proof_of_purchase_implies_listed:
  "constructor self deployer tok usdc_addr treasury_addr = Inr s0 \<Longrightarrow>
   \<forall>tx \<in> set txs. 0 < block_timestamp (fst tx) \<Longrightarrow>
   s = run tk keccak s0 txs \<Longrightarrow>
   (hasPurchased s buyer productId \<longrightarrow> listedAt (products s productId) \<noteq> 0) \<and>
   (hasPurchased s (msg_sender e) productId \<longrightarrow>
      leaveReview e s productId rating \<noteq> Inl ProductNotFound)"
proof -
  assume c: "constructor self deployer tok usdc_addr treasury_addr = Inr s0"
    and ts: "\<forall>tx \<in> set txs. 0 < block_timestamp (fst tx)"
    and s: "s = run tk keccak s0 txs"
  have "\<forall>b p. hasPurchased s0 b p \<longrightarrow> listedAt (products s0 p) \<noteq> 0"
    using c by (auto simp: constructor_def split: if_splits)
  from run_keeps_listed [OF this ts]
  have inv: "\<forall>b p. hasPurchased s b p \<longrightarrow> listedAt (products s p) \<noteq> 0"
    by (simp add: s)
  have "leaveReview e s productId rating \<noteq> Inl ProductNotFound"
    if "hasPurchased s (msg_sender e) productId"
  proof -
    from inv that have "listedAt (products s productId) \<noteq> 0" by blast
    then show ?thesis by (simp add: leaveReview_def Let_def)
  qed
  with inv show ?thesis by blast
qed

lemma w_constructed: "constructor 50 9 w_funds 60 70 = Inr w_genesis"
  by (simp add: w_defs)

theorem proof_of_purchase_implies_listed_witness:
  "constructor 50 9 w_funds 60 70 = Inr w_genesis \<and>
   0 < block_timestamp (fst w_listing) \<and> 0 < block_timestamp w_buyer \<and>
   w_bought = run (plain_token True) counter_hash w_genesis
     [w_listing, (w_buyer, PurchaseCall 1000)] \<and>
   hasPurchased w_bought 2 1000 \<and>
   listedAt (products w_bought 1000) \<noteq> 0 \<and>
   hasPurchased w_bought (msg_sender w_buyer) 1000 \<and>
   leaveReview w_buyer w_bought 1000 3 \<noteq> Inl ProductNotFound"
proof -
  have ts: "\<forall>tx \<in> set [w_listing, (w_buyer, PurchaseCall 1000)]. 0 < block_timestamp (fst tx)"
    by (simp add: w_listing_def w_seller_def w_buyer_def)
  have h: "hasPurchased w_bought 2 1000" "hasPurchased w_bought (msg_sender w_buyer) 1000"
    by (simp_all add: w_bought_def w_defs)
  have t: "0 < block_timestamp (fst w_listing)" "0 < block_timestamp w_buyer"
    by (simp_all add: w_listing_def w_seller_def w_buyer_def)
  from proof_of_purchase_implies_listed [OF w_constructed ts w_bought_def]
  show ?thesis using w_constructed t h w_bought_def by blast
qed

section \<open>Repeated reviews\<close>

text \<open>
  C4, as the claim states it, fails.  The contract keeps no record of who has reviewed and
  has no error for a duplicate review.  In the sample market the buyer reviews the product
  with rating 1 and then again with rating 2: the second call succeeds and moves the
  aggregate from (100, 1) to (150, 2).
\<close>

theorem second_review_accepted:
  "leaveReview w_buyer w_bought 1000 1 = Inr w_reviewed \<and>
   productRatings w_reviewed 1000 = 100 \<and>
   productReviewCount w_reviewed 1000 = 1 \<and>
   leaveReview w_buyer w_reviewed 1000 2 = Inr w_reviewed_twice \<and>
   productRatings w_reviewed_twice 1000 = 150 \<and>
   productReviewCount w_reviewed_twice 1000 = 2"
proof -
  have "productRatings w_reviewed 1000 = 100" "productReviewCount w_reviewed 1000 = 1"
    by (simp_all add: w_reviewed_def w_defs)
  moreover have "productRatings w_reviewed_twice 1000 = 150"
    "productReviewCount w_reviewed_twice 1000 = 2"
    by (simp_all add: w_reviewed_twice_def w_defs numeral_2_eq_2 [symmetric])
  ultimately show ?thesis using w_review w_review_again by simp
qed

text \<open>
  C4, amended.  A buyer may review a product more than once.  After a successful review
  by a buyer, a further review of the same product by the same buyer is never rejected as
  coming from a non-buyer or for a missing product; whenever it succeeds it raises the
  review count to two above the count before the first review and recomputes the average
  by the rolling formula; and it does succeed when it repeats the rating of the first
  review and the arithmetic on the aggregate and on the gas figures stays within uint256.
\<close>

theorem review_repeatable:
  "leaveReview e s productId rating = Inr s1 \<Longrightarrow>
   msg_sender e2 = msg_sender e \<Longrightarrow>
   leaveReview e2 s1 productId rating2 \<noteq> Inl NotProductBuyer \<and>
   leaveReview e2 s1 productId rating2 \<noteq> Inl ProductNotFound \<and>
   (\<forall>s2. leaveReview e2 s1 productId rating2 = Inr s2 \<longrightarrow>
      productReviewCount s2 productId = productReviewCount s productId + 2 \<and>
      productRatings s2 productId =
        (productRatings s1 productId * productReviewCount s1 productId + unat rating2 * 100)
          div (productReviewCount s1 productId + 1)) \<and>
   (rating2 = rating \<and>
    fits256 (productRatings s1 productId * productReviewCount s1 productId
             + unat rating2 * 100) \<and>
    fits256 (productReviewCount s1 productId + 1) \<and>
    fits256 (tx_gasprice e2 * gas_left e2) \<longrightarrow>
      (\<exists>s2. leaveReview e2 s1 productId rating2 = Inr s2))"
proof -
  assume a: "leaveReview e s productId rating = Inr s1" and m: "msg_sender e2 = msg_sender e"
  note d = leaveReview_InrD [OF a]
  have hp: "hasPurchased s1 (msg_sender e2) productId"
    using d m by (simp add: leaveReview_frame [OF a])
  have la: "listedAt (products s1 productId) \<noteq> 0"
    using d by (simp add: leaveReview_frame [OF a])
  have c1: "productReviewCount s1 productId = productReviewCount s productId + 1"
    using d by simp
  have 1: "leaveReview e2 s1 productId rating2 \<noteq> Inl NotProductBuyer"
    using hp by (simp add: leaveReview_def Let_def)
  have 2: "leaveReview e2 s1 productId rating2 \<noteq> Inl ProductNotFound"
    using la by (simp add: leaveReview_def Let_def)
  have 3: "\<forall>s2. leaveReview e2 s1 productId rating2 = Inr s2 \<longrightarrow>
      productReviewCount s2 productId = productReviewCount s productId + 2 \<and>
      productRatings s2 productId =
        (productRatings s1 productId * productReviewCount s1 productId + unat rating2 * 100)
          div (productReviewCount s1 productId + 1)"
  proof (intro allI impI)
    fix s2 assume b: "leaveReview e2 s1 productId rating2 = Inr s2"
    from leaveReview_InrD [OF b] c1
    show "productReviewCount s2 productId = productReviewCount s productId + 2 \<and>
      productRatings s2 productId =
        (productRatings s1 productId * productReviewCount s1 productId + unat rating2 * 100)
          div (productReviewCount s1 productId + 1)"
      by simp
  qed
  have 4: "\<exists>s2. leaveReview e2 s1 productId rating2 = Inr s2"
    if h: "rating2 = rating \<and>
      fits256 (productRatings s1 productId * productReviewCount s1 productId
               + unat rating2 * 100) \<and>
      fits256 (productReviewCount s1 productId + 1) \<and>
      fits256 (tx_gasprice e2 * gas_left e2)"
  proof -
    from h have eq: "rating2 = rating"
      and f1: "fits256 (productRatings s1 productId * productReviewCount s1 productId
               + unat rating2 * 100)"
      and f2: "fits256 (productReviewCount s1 productId + 1)"
      and f3: "fits256 (tx_gasprice e2 * gas_left e2)"
      by blast+
    have r: "\<not> (rating2 < 1 \<or> rating2 > 5)"
      using a eq by (auto simp: leaveReview_def)
    have u: "unat rating2 * 100 < 2 ^ 8" using d eq by simp
    have f0: "fits256 (productRatings s1 productId * productReviewCount s1 productId)"
      using f1 by (simp add: fits256_def)
    show ?thesis
      using r u f0 f1 f2 f3 hp la by (simp add: leaveReview_def Let_def)
  qed
  from 1 2 3 4 show ?thesis by blast
qed

theorem review_repeatable_witness:
  "leaveReview w_buyer w_bought 1000 1 = Inr w_reviewed \<and>
   msg_sender w_buyer = msg_sender w_buyer \<and>
   fits256 (productRatings w_reviewed 1000 * productReviewCount w_reviewed 1000
            + unat (1 :: uint8) * 100) \<and>
   fits256 (productReviewCount w_reviewed 1000 + 1) \<and>
   fits256 (tx_gasprice w_buyer * gas_left w_buyer) \<and>
   leaveReview w_buyer w_reviewed 1000 1 \<noteq> Inl NotProductBuyer \<and>
   leaveReview w_buyer w_reviewed 1000 1 \<noteq> Inl ProductNotFound \<and>
   (\<exists>s2. leaveReview w_buyer w_reviewed 1000 1 = Inr s2 \<and>
      productReviewCount s2 1000 = productReviewCount w_bought 1000 + 2)"
proof -
  have f: "fits256 (productRatings w_reviewed 1000 * productReviewCount w_reviewed 1000
            + unat (1 :: uint8) * 100)"
    "fits256 (productReviewCount w_reviewed 1000 + 1)"
    "fits256 (tx_gasprice w_buyer * gas_left w_buyer)"
    by (simp_all add: w_reviewed_def w_defs)
  from review_repeatable [OF w_review refl, of 1] f
  show ?thesis using w_review by blast
qed

section \<open>Reviews of deprecated products\<close>

text \<open>The outcome of a review is the same whatever the deprecated flag of any product.\<close>

lemma leaveReview_ignores_deprecated:
  "leaveReview e (s\<lparr> products := (products s)(p := (products s p)\<lparr> deprecated := d \<rparr>) \<rparr>)
     productId rating =
   map_sum (\<lambda>err. err)
     (\<lambda>s'. s'\<lparr> products := (products s')(p := (products s' p)\<lparr> deprecated := d \<rparr>) \<rparr>)
     (leaveReview e s productId rating)"
  by (simp add: leaveReview_def Let_def)

text \<open>
  C10.  \<open>leaveReview\<close> does not read the deprecated flag, but it does not accept every
  rating from 1 to 5 either.  In the sample market, after the seller has deprecated the
  product, the buyer, who holds proof of purchase, reviews it with rating 3: the call
  passes the checks on the rating, the proof of purchase and the product, and then reverts
  with Panic, because \<open>rating * 100\<close> is computed as a uint8 and 300 does not fit.
  The same call with rating 2 succeeds.
\<close>

theorem review_rating_3_panics:
  "deprecated (products w_deprecated 1000) \<and>
   hasPurchased w_deprecated (msg_sender w_buyer) 1000 \<and>
   leaveReview w_buyer w_deprecated 1000 3 = Inl Panic \<and>
   leaveReview w_buyer w_deprecated 1000 4 = Inl Panic \<and>
   leaveReview w_buyer w_deprecated 1000 5 = Inl Panic \<and>
   \<not> isl (leaveReview w_buyer w_deprecated 1000 2)"
  by (simp add: w_deprecated_def w_defs)

section \<open>The two writers of the mirror store\<close>

lemmas m_defs = onLog_ProductPurchased_def POST_def insert_transaction_onConflictDoNothing_def
  insert_transaction_def tx_exists_def upsert_seller_def bump_tag_def exact_numbers_def
  w_server_def w_product_row_def w_mirror_def w_log_def w_receipt_def w_forged_receipt_def
  w_mirror_followed_def Let_def
  insert_transaction_checked_def transaction_columns_def bump_product_def varchar_def
  varchar_null_def
  fits_int4_def fits_decimal_10_2_def follower_accepted_def intake_accepted_def

lemma eight_Suc: "(8::nat) = Suc (Suc (Suc (Suc (Suc (Suc (Suc (Suc 0)))))))"
  by simp

lemma pg_uuid_in_samples:
  "pg_uuid_in ''11111111-1111-1111-1111-111111111111'' =
     Some ''11111111-1111-1111-1111-111111111111''"
  "pg_uuid_in ''33333333-3333-3333-3333-333333333333'' =
     Some ''33333333-3333-3333-3333-333333333333''"
  "pg_uuid_in ''0xp1'' = None"
  by (simp_all add: pg_uuid_in_def canonical_uuid_def xdigit_def lower_xdigit_def eight_Suc)

lemma falsy_iff: "\<not> falsy x \<longleftrightarrow> (\<exists>v. x = Some v \<and> v \<noteq> [])"
  by (cases x) simp_all

lemma upsert_seller_frame:
  "m_transactions (upsert_seller js db a x) = m_transactions db"
  "m_tagAnalytics (upsert_seller js db a x) = m_tagAnalytics db"
  "m_products (upsert_seller js db a x) = m_products db"
  by (simp_all add: upsert_seller_def)

lemma insert_ignore_transactions:
  "m_transactions (insert_transaction_onConflictDoNothing db row) =
     (if tx_exists db (t_txHash row) then m_transactions db else m_transactions db @ [row])"
  "m_tagAnalytics (insert_transaction_onConflictDoNothing db row) = m_tagAnalytics db"
  "m_products (insert_transaction_onConflictDoNothing db row) = m_products db"
  by (simp_all add: insert_transaction_onConflictDoNothing_def insert_transaction_def)

lemma varchar_fits: "length s \<le> n \<Longrightarrow> varchar n s = Some s"
  by (simp add: varchar_def)

lemma insert_checked_Some:
  assumes "insert_transaction_checked db row = Some db1"
  shows "\<exists>stored. transaction_columns row = Some stored \<and>
           \<not> tx_exists db (t_txHash stored) \<and>
           db1 = db\<lparr> m_transactions := m_transactions db @ [stored] \<rparr>"
  using assms
  by (auto simp: insert_transaction_checked_def insert_transaction_def
      split: option.splits if_splits)

lemma transaction_columns_Some:
  assumes "transaction_columns row = Some stored"
  shows "varchar 66 (t_txHash row) = Some (t_txHash stored)"
    and "varchar 42 (t_fromAddress row) = Some (t_fromAddress stored)"
    and "t_blockNumber stored = t_blockNumber row"
    and "t_productId stored = t_productId row"
  using assms
  by (auto simp: transaction_columns_def split: option.splits if_splits)

lemma bump_product_Some:
  assumes "bump_product js srv db ident amount = Some db2"
  shows "m_transactions db2 = m_transactions db"
    and "m_tagAnalytics db2 = m_tagAnalytics db"
    and "map p_totalSales (m_products db2) =
           map (\<lambda>p. if p_id p = ident then p_totalSales p + 1 else p_totalSales p)
             (m_products db)"
proof -
  have m: "map p_totalSales (map (\<lambda>p. if p_id p = i
        then p\<lparr> p_totalSales := p_totalSales p + 1,
               p_totalRevenueUSDC := r p, p_lastSaleAt := t, p_updatedAt := u \<rparr> else p) ps) =
     map (\<lambda>p. if p_id p = i then p_totalSales p + 1 else p_totalSales p) ps"
    for r t u i and ps :: "product_row list"
    by (induction ps) simp_all
  from assms have d: "db2 = db\<lparr> m_products := map (\<lambda>p. if p_id p = ident
                   then p\<lparr> p_totalSales := p_totalSales p + 1,
                          p_totalRevenueUSDC :=
                            store_decimal js (p_totalRevenueUSDC p + amount),
                          p_lastSaleAt := Some (now srv),
                          p_updatedAt := now srv \<rparr>
                   else p) (m_products db) \<rparr>"
    by (auto simp: bump_product_def split: if_splits)
  show "m_transactions db2 = m_transactions db" by (simp add: d)
  show "m_tagAnalytics db2 = m_tagAnalytics db" by (simp add: d)
  show "map p_totalSales (m_products db2) =
           map (\<lambda>p. if p_id p = ident then p_totalSales p + 1 else p_totalSales p)
             (m_products db)"
    by (simp add: d m)
qed

lemma bump_tag_Some:
  assumes "bump_tag srv db tg = Some db'"
  shows "m_transactions db' = m_transactions db" and "m_products db' = m_products db"
  using assms
  by (auto simp: bump_tag_def split: option.splits if_splits)

lemma bump_tags_frame:
  "m_transactions (snd (bump_tags srv db tgs)) = m_transactions db \<and>
   m_products (snd (bump_tags srv db tgs)) = m_products db"
proof (induction tgs arbitrary: db)
  case Nil
  then show ?case by simp
next
  case (Cons tg tgs)
  show ?case
  proof (cases "bump_tag srv db tg")
    case None
    then show ?thesis by simp
  next
    case (Some db')
    with Cons.IH [of db'] bump_tag_Some [OF Some] show ?thesis by simp
  qed
qed



lemma onLog_skip:
  "falsy (l_productId lg) \<or> falsy (l_buyer lg) \<or> falsy (l_seller lg) \<Longrightarrow>
   onLog_ProductPurchased js srv db lg = db"
  by (simp add: onLog_ProductPurchased_def)

lemma onLog_transactions:
  assumes "\<not> falsy (l_productId lg)" "\<not> falsy (l_buyer lg)" "\<not> falsy (l_seller lg)"
  shows "map t_txHash (m_transactions (onLog_ProductPurchased js srv db lg)) =
       (if tx_exists db (l_transactionHash lg) then map t_txHash (m_transactions db)
        else map t_txHash (m_transactions db) @ [l_transactionHash lg])"
proof -
  from assms obtain productId buyer sellerAddr where
    v: "l_productId lg = Some productId" "l_buyer lg = Some buyer"
       "l_seller lg = Some sellerAddr"
    by (auto simp: falsy_iff)
  show ?thesis
    using assms v
    by (simp add: onLog_ProductPurchased_def Let_def upsert_seller_frame
        insert_ignore_transactions tx_exists_def)
qed

lemma onLog_tagAnalytics:
  "m_tagAnalytics (onLog_ProductPurchased js srv db lg) = m_tagAnalytics db"
  by (simp add: onLog_ProductPurchased_def Let_def upsert_seller_frame
      insert_ignore_transactions split: option.splits)

lemma onLog_totalSales:
  assumes "l_productId lg = Some productId" "productId \<noteq> []"
    "\<not> falsy (l_buyer lg)" "\<not> falsy (l_seller lg)"
  shows "map p_totalSales (m_products (onLog_ProductPurchased js srv db lg)) =
     map (\<lambda>p. if p_productId p = productId then p_totalSales p + 1 else p_totalSales p)
       (m_products db)"
proof -
  from assms obtain buyer sellerAddr where
    v: "l_buyer lg = Some buyer" "l_seller lg = Some sellerAddr"
    by (auto simp: falsy_iff)
  have "map p_totalSales (map (\<lambda>p. if p_productId p = productId
        then p\<lparr> p_totalSales := p_totalSales p + 1,
               p_totalRevenueUSDC := r p, p_lastSaleAt := t \<rparr> else p) ps) =
     map (\<lambda>p. if p_productId p = productId then p_totalSales p + 1 else p_totalSales p) ps"
    for r t and ps :: "product_row list"
    by (induction ps) simp_all
  then show ?thesis
    using assms v
    by (simp add: onLog_ProductPurchased_def Let_def upsert_seller_frame
        insert_ignore_transactions)
qed

lemma follower_accepted_hash:
  assumes "\<not> falsy (l_productId lg)" "\<not> falsy (l_buyer lg)" "\<not> falsy (l_seller lg)"
    and "follower_accepted js srv db lg"
  shows "length (l_transactionHash lg) \<le> 66"
proof -
  from assms obtain productId buyer sellerAddr where
    "l_productId lg = Some productId" "l_buyer lg = Some buyer"
    "l_seller lg = Some sellerAddr"
    by (auto simp: falsy_iff)
  with assms(4) show ?thesis
    by (simp add: follower_accepted_def Let_def)
qed

lemma POST_seen:
  assumes "b_txHash b = Some h" "tx_exists db h"
  shows "snd (POST js srv db ident (Some b)) = db"
  using assms
  by (simp add: POST_def split: option.splits)



lemma POST_transactions:
  assumes h: "b_txHash b = Some h" and l: "length h \<le> 66"
  shows "map t_txHash (m_transactions (snd (POST js srv db ident (Some b)))) =
           map t_txHash (m_transactions db) \<or>
         \<not> tx_exists db h \<and>
         map t_txHash (m_transactions (snd (POST js srv db ident (Some b)))) =
           map t_txHash (m_transactions db) @ [h]"
proof -
  have ins: "map t_txHash (m_transactions db1) = map t_txHash (m_transactions db) @ [h] \<and>
      \<not> tx_exists db h"
    if "insert_transaction_checked db row = Some db1" "t_txHash row = h" for row db1
  proof -
    from insert_checked_Some [OF that(1)] obtain stored where
      s: "transaction_columns row = Some stored" "\<not> tx_exists db (t_txHash stored)"
         "db1 = db\<lparr> m_transactions := m_transactions db @ [stored] \<rparr>"
      by blast
    from transaction_columns_Some(1) [OF s(1)] that(2) l
    have "t_txHash stored = h" by (simp add: varchar_fits)
    with s show ?thesis by simp
  qed
  show ?thesis
    using h
    by (auto simp: POST_def Let_def bump_tags_frame
        dest!: ins bump_product_Some(1)
        split: option.splits if_splits)
qed

lemma tx_exists_map:
  "tx_exists db h \<longleftrightarrow> h \<in> set (map t_txHash (m_transactions db))"
  by (auto simp: tx_exists_def filter_empty_conv)

lemma count_by_key:
  "length (filter (\<lambda>t. f t = h) xs) = count_list (map f xs) h"
  by (induction xs) auto

section \<open>Receipt intake and the ledger\<close>




section \<open>Replayed purchase events\<close>

text \<open>
  C3.  The intake route returns before any write when a transaction row with the hash
  exists.  The follower does not: it adds one to the sale counter and the price to the
  revenue of the product before it inserts the transaction row, and only the insert is
  skipped on a conflict.  On the sample mirror the follower handles the same log twice.
  After the first time the row for the hash exists and the product has one sale; after
  the second time there is still one row, and the product has two sales.
\<close>

theorem follower_replay_counts_twice:
  "tx_exists w_mirror_followed ''0xtx1'' \<and>
   l_transactionHash w_log = ''0xtx1'' \<and>
   map p_totalSales (m_products w_mirror_followed) = [1] \<and>
   map p_totalSales
     (m_products (onLog_ProductPurchased exact_numbers w_server w_mirror_followed w_log)) = [2] \<and>
   map t_txHash
     (m_transactions (onLog_ProductPurchased exact_numbers w_server w_mirror_followed w_log)) =
     [''0xtx1''] \<and>
   snd (POST exact_numbers w_server w_mirror_followed ''0xp1'' (Some w_receipt)) =
     w_mirror_followed"
  by (simp add: m_defs)

section \<open>The two writers in either order\<close>

text \<open>
  C5, as the claim states it, fails.  The receipt is posted to the path of the product
  row's uuid.  On the sample mirror, the follower's projection of the purchase followed by
  the intake's leaves one sale and no tag counter; the intake's followed by the follower's
  leaves two sales and the tag counter of the product's tag at one.  The two final states
  differ.
\<close>

theorem writer_order_matters:
  "map p_id (m_products w_mirror) = [''11111111-1111-1111-1111-111111111111''] \<and>
   map p_totalSales (m_products
     (snd (POST exact_numbers w_server
        (onLog_ProductPurchased exact_numbers w_server w_mirror w_log)
        ''11111111-1111-1111-1111-111111111111'' (Some w_receipt)))) = [1] \<and>
   map p_totalSales (m_products
     (onLog_ProductPurchased exact_numbers w_server
        (snd (POST exact_numbers w_server w_mirror
           ''11111111-1111-1111-1111-111111111111'' (Some w_receipt)))
        w_log)) = [2] \<and>
   m_tagAnalytics
     (snd (POST exact_numbers w_server
        (onLog_ProductPurchased exact_numbers w_server w_mirror w_log)
        ''11111111-1111-1111-1111-111111111111'' (Some w_receipt))) = [] \<and>
   map (\<lambda>g. (g_tag g, g_totalPurchases g)) (m_tagAnalytics
     (onLog_ProductPurchased exact_numbers w_server
        (snd (POST exact_numbers w_server w_mirror
           ''11111111-1111-1111-1111-111111111111'' (Some w_receipt)))
        w_log)) = [(''search'', 1)] \<and>
   snd (POST exact_numbers w_server
        (onLog_ProductPurchased exact_numbers w_server w_mirror w_log)
        ''11111111-1111-1111-1111-111111111111'' (Some w_receipt)) \<noteq>
   onLog_ProductPurchased exact_numbers w_server
        (snd (POST exact_numbers w_server w_mirror
           ''11111111-1111-1111-1111-111111111111'' (Some w_receipt)))
        w_log"
  by (simp add: m_defs pg_uuid_in_samples)

text \<open>
  C5, amended.  Take a purchase whose log the follower handles (product, buyer and seller
  present) and a receipt naming the same transaction hash, on a mirror store that has no
  row for that hash, the database taking the follower's writes in both orders.  In either
  order of the two projections the final mirror store holds exactly one transaction row
  for the hash.  When the follower's projection comes first, the intake's changes nothing
  after it, and the tag counters stay as they were before both.  The final states of the
  two orders need not be equal.
\<close>

theorem either_order_one_row:
  "\<not> falsy (l_productId lg) \<Longrightarrow> \<not> falsy (l_buyer lg) \<Longrightarrow> \<not> falsy (l_seller lg) \<Longrightarrow>
   b_txHash b = Some (l_transactionHash lg) \<Longrightarrow>
   \<not> tx_exists db (l_transactionHash lg) \<Longrightarrow>
   follower_accepted js srv1 db lg \<Longrightarrow>
   follower_accepted js srv1 (snd (POST js srv2 db ident (Some b))) lg \<Longrightarrow>
   (let follower_first =
          snd (POST js srv2 (onLog_ProductPurchased js srv1 db lg) ident (Some b));
        intake_first =
          onLog_ProductPurchased js srv1 (snd (POST js srv2 db ident (Some b))) lg
    in length (filter (\<lambda>t. t_txHash t = l_transactionHash lg)
                 (m_transactions follower_first)) = 1 \<and>
       length (filter (\<lambda>t. t_txHash t = l_transactionHash lg)
                 (m_transactions intake_first)) = 1 \<and>
       follower_first = onLog_ProductPurchased js srv1 db lg \<and>
       m_tagAnalytics follower_first = m_tagAnalytics db)"
proof -
  assume v: "\<not> falsy (l_productId lg)" "\<not> falsy (l_buyer lg)" "\<not> falsy (l_seller lg)"
    and h: "b_txHash b = Some (l_transactionHash lg)"
    and n: "\<not> tx_exists db (l_transactionHash lg)"
    and acc: "follower_accepted js srv1 db lg"
  let ?h = "l_transactionHash lg"
  let ?f = "onLog_ProductPurchased js srv1 db lg"
  let ?i = "snd (POST js srv2 db ident (Some b))"
  have l: "length ?h \<le> 66"
    by (rule follower_accepted_hash [OF v acc])
  have c0: "count_list (map t_txHash (m_transactions db)) ?h = 0"
    using n by (simp add: tx_exists_map)
  have f: "map t_txHash (m_transactions ?f) = map t_txHash (m_transactions db) @ [?h]"
    using onLog_transactions [OF v, of js srv1 db] n by simp
  then have fe: "tx_exists ?f ?h"
    by (simp add: tx_exists_map)
  have ff: "snd (POST js srv2 ?f ident (Some b)) = ?f"
    by (rule POST_seen [OF h fe])
  have 1: "length (filter (\<lambda>t. t_txHash t = ?h) (m_transactions ?f)) = 1"
    using f c0 by (simp add: count_by_key)
  from POST_transactions [OF h l, of js srv2 db ident]
  consider (same) "map t_txHash (m_transactions ?i) = map t_txHash (m_transactions db)"
    | (added) "map t_txHash (m_transactions ?i) = map t_txHash (m_transactions db) @ [?h]"
    by blast
  then have 2: "length (filter (\<lambda>t. t_txHash t = ?h)
      (m_transactions (onLog_ProductPurchased js srv1 ?i lg))) = 1"
  proof cases
    case same
    then have "\<not> tx_exists ?i ?h" using n by (simp add: tx_exists_map)
    with onLog_transactions [OF v, of js srv1 ?i] same c0
    show ?thesis by (simp add: count_by_key)
  next
    case added
    then have "tx_exists ?i ?h" by (simp add: tx_exists_map)
    with onLog_transactions [OF v, of js srv1 ?i] added c0
    show ?thesis by (simp add: count_by_key)
  qed
  have 3: "m_tagAnalytics ?f = m_tagAnalytics db"
    by (rule onLog_tagAnalytics)
  show ?thesis
    unfolding Let_def using 1 2 3 ff by simp
qed

theorem either_order_one_row_witness:
  "\<not> falsy (l_productId w_log) \<and> \<not> falsy (l_buyer w_log) \<and> \<not> falsy (l_seller w_log) \<and>
   b_txHash w_receipt = Some (l_transactionHash w_log) \<and>
   \<not> tx_exists w_mirror (l_transactionHash w_log) \<and>
   follower_accepted exact_numbers w_server w_mirror w_log \<and>
   follower_accepted exact_numbers w_server
     (snd (POST exact_numbers w_server w_mirror
        ''11111111-1111-1111-1111-111111111111'' (Some w_receipt))) w_log \<and>
   length (filter (\<lambda>t. t_txHash t = l_transactionHash w_log)
     (m_transactions (snd (POST exact_numbers w_server
        (onLog_ProductPurchased exact_numbers w_server w_mirror w_log)
        ''11111111-1111-1111-1111-111111111111'' (Some w_receipt))))) = 1 \<and>
   length (filter (\<lambda>t. t_txHash t = l_transactionHash w_log)
     (m_transactions (onLog_ProductPurchased exact_numbers w_server
        (snd (POST exact_numbers w_server w_mirror
           ''11111111-1111-1111-1111-111111111111'' (Some w_receipt))) w_log))) = 1 \<and>
   snd (POST exact_numbers w_server
        (onLog_ProductPurchased exact_numbers w_server w_mirror w_log)
        ''11111111-1111-1111-1111-111111111111'' (Some w_receipt)) =
     onLog_ProductPurchased exact_numbers w_server w_mirror w_log"
proof -
  have v: "\<not> falsy (l_productId w_log)" "\<not> falsy (l_buyer w_log)" "\<not> falsy (l_seller w_log)"
    by (simp_all add: w_log_def)
  have h: "b_txHash w_receipt = Some (l_transactionHash w_log)"
    by (simp add: w_log_def w_receipt_def)
  have n: "\<not> tx_exists w_mirror (l_transactionHash w_log)"
    by (simp add: w_log_def w_mirror_def tx_exists_def)
  have a: "follower_accepted exact_numbers w_server w_mirror w_log"
    by (simp add: m_defs)
  have a': "follower_accepted exact_numbers w_server
     (snd (POST exact_numbers w_server w_mirror
        ''11111111-1111-1111-1111-111111111111'' (Some w_receipt))) w_log"
    by (simp add: m_defs pg_uuid_in_samples)
  from either_order_one_row [OF v h n a a']
  show ?thesis unfolding Let_def using v h n a a' by blast
qed

end
